theory Spec2Isabelle
  imports Main
begin

section \<open>The default registry of the driver package (driver/registry_default.go)\<close>

subsection \<open>Strings\<close>

text \<open>
  Go's \<^verbatim>\<open>strings.HasPrefix(s, prefix)\<close> is
  \<^verbatim>\<open>len(s) >= len(prefix) && s[0:len(prefix)] == prefix\<close>, on bytes.
\<close>

definition HasPrefix :: "string \<Rightarrow> string \<Rightarrow> bool" where
  "HasPrefix s p = (length p \<le> length s \<and> take (length p) s = p)"

text \<open>\<^verbatim>\<open>func (m *RegistryDefault) CanHandle(dsn string) bool\<close>, lines 434-444.\<close>

definition CanHandle :: "string \<Rightarrow> bool" where
  "CanHandle dsn =
     (dsn = ''memory'' \<or>
      HasPrefix dsn ''mysql'' \<or>
      HasPrefix dsn ''sqlite'' \<or>
      HasPrefix dsn ''sqlite3'' \<or>
      HasPrefix dsn ''postgres'' \<or>
      HasPrefix dsn ''postgresql'' \<or>
      HasPrefix dsn ''cockroach'' \<or>
      HasPrefix dsn ''cockroachdb'' \<or>
      HasPrefix dsn ''crdb'')"

subsection \<open>Values of the imported packages\<close>

text \<open>
  Objects that Go handles through pointers are told apart by their address; the model
  gives every object built by a constructor a number of its own.
\<close>

type_synonym ptr = nat

text \<open>
  Errors. \<^verbatim>\<open>errors.WithStack\<close> of github.com/pkg/errors wraps a non-nil error and
  maps nil to nil.
\<close>

datatype error = Error string | WithStack error

definition errors_WithStack :: "error option \<Rightarrow> error option" where
  "errors_WithStack err = (case err of None \<Rightarrow> None | Some e \<Rightarrow> Some (WithStack e))"

text \<open>
  The values that the methods of \<^verbatim>\<open>*config.Provider\<close> return at the moment they are
  called. The provider is reloaded while the process runs; a reload is a change of this
  record behind the registry's pointer \<^verbatim>\<open>m.c\<close>. Durations are in nanoseconds
  (\<^verbatim>\<open>time.Duration\<close>); \<^verbatim>\<open>http.SameSite\<close> is an integer.
\<close>

record config =
  DSN :: string
  SelfServiceStrategy_Enabled :: "string \<Rightarrow> bool"
  SecretsSession :: "string list"
  IsInsecureDevMode :: bool
  SessionDomain :: string
  SessionPath :: string
  SessionSameSiteMode :: int
  SessionPersistentCookie :: bool
  SessionLifespan :: int

text \<open>\<^verbatim>\<open>sessions.Options\<close> and \<^verbatim>\<open>sessions.CookieStore\<close> of github.com/gorilla/sessions.\<close>

record sessions_Options =
  Path :: string
  Domain :: string
  MaxAge :: int
  Secure :: bool
  HttpOnly :: bool
  SameSite :: int

record CookieStore =
  store_ptr :: ptr
  Codecs :: "string list"
  Options :: sessions_Options

text \<open>\<^verbatim>\<open>http.SameSiteLaxMode\<close> of net/http: the second value of an iota that starts at 1.\<close>

definition SameSiteLaxMode :: int where
  "SameSiteLaxMode = 2"

text \<open>\<^verbatim>\<open>time.Minute\<close> in nanoseconds.\<close>

definition Minute :: int where
  "Minute = 60 * 1000000000"

text \<open>
  A self-service strategy, as far as the registry looks at it: the identifier its
  \<^verbatim>\<open>ID()\<close> method returns, and which of the type assertions
  \<^verbatim>\<open>strategy.(registration.Strategy)\<close>, \<^verbatim>\<open>strategy.(login.Strategy)\<close>,
  \<^verbatim>\<open>strategy.(verification.Strategy)\<close> and
  \<^verbatim>\<open>strategy.(identity.ActiveCredentialsCounter)\<close> succeed on it.
\<close>

record strategy =
  ID :: string
  is_registration_Strategy :: bool
  is_login_Strategy :: bool
  is_verification_Strategy :: bool
  is_ActiveCredentialsCounter :: bool

text \<open>\<^verbatim>\<open>backoff.ExponentialBackOff\<close> of github.com/cenkalti/backoff; the field Init sets.\<close>

record ExponentialBackOff =
  MaxElapsedTime :: int

text \<open>\<^verbatim>\<open>pop.ConnectionDetails\<close>, \<^verbatim>\<open>*pop.Connection\<close> and \<^verbatim>\<open>*sql.Persister\<close>.\<close>

record ConnectionDetails =
  URL :: string
  IdlePool :: int
  ConnMaxLifetime :: int
  Pool :: int

datatype Connection = Connection ConnectionDetails

datatype sql_Persister = PersisterAt ptr

text \<open>
  What the imported packages compute, taken as parameters: their code is not part of
  the registry. \<open>NewCookieStore_Options\<close> is the \<^verbatim>\<open>Options\<close> that
  \<^verbatim>\<open>sessions.NewCookieStore\<close> gives a new store; \<open>int_Seconds d\<close> is Go's
  \<^verbatim>\<open>int(d.Seconds())\<close>, a float64 computation; \<open>ContextualizeConfig\<close> is
  \<^verbatim>\<open>corp.ContextualizeConfig(ctx, c)\<close> for the request's context; \<open>InMemoryDSN\<close> is
  \<^verbatim>\<open>dbal.InMemoryDSN\<close>; the four \<open>NewStrategy\<close> values are what the strategy
  packages' constructors return. \<open>ParseConnectionOptions\<close> and \<open>FinalizeDSN\<close> (package
  sqlcon) and \<open>tracing_New\<close> take the logger pointer that the registry hands them, its
  field \<^verbatim>\<open>m.l\<close> as it is, nil included, and may panic (\<open>Inl\<close> the message), as a call on
  a nil logger does; \<open>tracing_New\<close> otherwise gives the error of \<^verbatim>\<open>tracing.New\<close>.
\<close>

record ext =
  NewCookieStore_Options :: sessions_Options
  int_Seconds :: "int \<Rightarrow> int"
  ContextualizeConfig :: "config \<Rightarrow> config"
  InMemoryDSN :: string
  ParseConnectionOptions :: "ptr option \<Rightarrow> string \<Rightarrow> string + int \<times> int \<times> int \<times> string"
  FinalizeDSN :: "ptr option \<Rightarrow> string \<Rightarrow> string + string"
  NewExponentialBackOff :: ExponentialBackOff
  password_NewStrategy :: strategy
  oidc_NewStrategy :: strategy
  profile_NewStrategy :: strategy
  link_NewStrategy :: strategy
  tracing_New :: "ptr option \<Rightarrow> config \<Rightarrow> string + error option"

text \<open>
  The database and the clock, as the bootstrap sees them. The first argument of each
  call is the number of the bootstrap attempt (0, 1, ...) in which it is made, so that a
  call may fail in one attempt and succeed in a later one. \<open>NextBackOff_grants bc\<close> is
  the number of times \<^verbatim>\<open>bc.NextBackOff()\<close> answers with a delay before it answers
  \<^verbatim>\<open>backoff.Stop\<close>: the retry budget that the clock and \<open>MaxElapsedTime bc\<close> leave.
\<close>

record world =
  pop_NewConnection :: "nat \<Rightarrow> ConnectionDetails \<Rightarrow> error + Connection"
  Connection_Open :: "nat \<Rightarrow> Connection \<Rightarrow> error option"
  sql_NewPersister :: "nat \<Rightarrow> Connection \<Rightarrow> error + sql_Persister"
  Persister_Ping :: "nat \<Rightarrow> sql_Persister \<Rightarrow> error option"
  Persister_MigrateUp :: "nat \<Rightarrow> sql_Persister \<Rightarrow> error option"
  NextBackOff_grants :: "ExponentialBackOff \<Rightarrow> nat"

text \<open>The calls into the database and the log lines of Init, in the order they happen.\<close>

datatype event =
  Call_NewConnection | Call_Open | Call_NewPersister | Call_Ping | Call_MigrateUp
  | Warnf string | Infoln string

subsection \<open>The registry\<close>

text \<open>
  \<^verbatim>\<open>type RegistryDefault struct\<close>, lines 56-133: the fields that the functions of this
  file read or write. A nil pointer or interface is \<open>None\<close>, a nil slice is \<open>[]\<close>.
  The fields \<^verbatim>\<open>l\<close>, \<^verbatim>\<open>a\<close> and \<^verbatim>\<open>c\<close> are \<open>m_l\<close>, \<open>m_a\<close> and \<open>m_c\<close>.
  \<open>next_ptr\<close> is not a field of the struct: it is the next unused object address.
\<close>

record RegistryDefault =
  m_l :: "ptr option"
  m_a :: "ptr option"
  m_c :: "config option"
  trc :: "ptr option"
  pmm :: "ptr option"
  writer :: "ptr option"
  healthxHandler :: "ptr option"
  metricsHandler :: "ptr option"
  courier :: "ptr option"
  persister :: "sql_Persister option"
  identityHandler :: "ptr option"
  identityValidator :: "ptr option"
  identityManager :: "ptr option"
  continuityManager :: "ptr option"
  schemaHandler :: "ptr option"
  sessionHandler :: "ptr option"
  sessionsStore :: "CookieStore option"
  sessionManager :: "ptr option"
  passwordHasher :: "ptr option"
  passwordValidator :: "ptr option"
  errorHandler :: "ptr option"
  errorManager :: "ptr option"
  selfserviceLogoutHandler :: "ptr option"
  selfserviceStrategies :: "strategy list"
  loginStrategies :: "strategy list"
  activeCredentialsCounterStrategies :: "strategy list"
  registrationStrategies :: "strategy list"
  verificationStrategies :: "strategy list"
  next_ptr :: ptr

text \<open>
  How a call ends: it panics, it ends the process (\<^verbatim>\<open>Fatalf\<close>), or it returns a value
  and leaves the registry in a new state.
\<close>

datatype 'a outcome = Panic string | Fatal string | Return 'a RegistryDefault

text \<open>A constructor of another package (\<^verbatim>\<open>NewHandler(m)\<close>, ...) returns a new object.\<close>

definition alloc :: "RegistryDefault \<Rightarrow> ptr \<times> RegistryDefault" where
  "alloc m = (next_ptr m, m\<lparr>next_ptr := Suc (next_ptr m)\<rparr>)"

text \<open>\<^verbatim>\<open>func NewRegistryDefault() *RegistryDefault\<close>, lines 191-193: the zero value.\<close>

definition NewRegistryDefault :: RegistryDefault where
  "NewRegistryDefault =
     \<lparr>m_l = None, m_a = None, m_c = None, trc = None, pmm = None, writer = None,
      healthxHandler = None, metricsHandler = None, courier = None, persister = None,
      identityHandler = None, identityValidator = None, identityManager = None,
      continuityManager = None, schemaHandler = None, sessionHandler = None,
      sessionsStore = None, sessionManager = None, passwordHasher = None,
      passwordValidator = None, errorHandler = None, errorManager = None,
      selfserviceLogoutHandler = None, selfserviceStrategies = [], loginStrategies = [],
      activeCredentialsCounterStrategies = [], registrationStrategies = [],
      verificationStrategies = [], next_ptr = 0\<rparr>"

text \<open>\<^verbatim>\<open>WithLogger\<close>, lines 195-198, and \<^verbatim>\<open>WithConfig\<close>, lines 310-313.\<close>

definition WithLogger :: "ptr option \<Rightarrow> RegistryDefault \<Rightarrow> RegistryDefault" where
  "WithLogger l m = m\<lparr>m_l := l\<rparr>"

definition WithConfig :: "config option \<Rightarrow> RegistryDefault \<Rightarrow> RegistryDefault" where
  "WithConfig c m = m\<lparr>m_c := c\<rparr>"

text \<open>
  \<^verbatim>\<open>Configuration(ctx)\<close>, lines 235-240: panics without a configuration (\<open>Inl\<close> the
  panic's message).
\<close>

definition Configuration :: "ext \<Rightarrow> RegistryDefault \<Rightarrow> string + config" where
  "Configuration x m =
     (case m_c m of
        None \<Rightarrow> Inl ''configuration not set''
      | Some c \<Rightarrow> Inr (ContextualizeConfig x c))"

subsection \<open>Components built on first use\<close>

text \<open>
  Each of these getters has the shape
  \<^verbatim>\<open>if m.f == nil { m.f = pkg.New...(m) }; return m.f\<close>.
\<close>

text \<open>\<^verbatim>\<open>Logger\<close>, lines 323-328.\<close>

definition Logger :: "RegistryDefault \<Rightarrow> ptr \<times> RegistryDefault" where
  "Logger m =
     (case m_l m of
        Some l \<Rightarrow> (l, m)
      | None \<Rightarrow> (case alloc m of (l, m1) \<Rightarrow> (l, m1\<lparr>m_l := Some l\<rparr>)))"

text \<open>\<^verbatim>\<open>Audit\<close>, lines 135-140.\<close>

definition Audit :: "RegistryDefault \<Rightarrow> ptr \<times> RegistryDefault" where
  "Audit m =
     (case m_a m of
        Some a \<Rightarrow> (a, m)
      | None \<Rightarrow> (case alloc m of (a, m1) \<Rightarrow> (a, m1\<lparr>m_a := Some a\<rparr>)))"

text \<open>\<^verbatim>\<open>Writer\<close>, lines 315-321: the new writer takes \<^verbatim>\<open>m.Logger()\<close>.\<close>

definition Writer :: "RegistryDefault \<Rightarrow> ptr \<times> RegistryDefault" where
  "Writer m =
     (case writer m of
        Some h \<Rightarrow> (h, m)
      | None \<Rightarrow>
          (case Logger m of (l, m1) \<Rightarrow>
           case alloc m1 of (h, m2) \<Rightarrow> (h, m2\<lparr>writer := Some h\<rparr>)))"

text \<open>\<^verbatim>\<open>LogoutHandler\<close>, lines 200-205.\<close>

definition LogoutHandler :: "RegistryDefault \<Rightarrow> ptr \<times> RegistryDefault" where
  "LogoutHandler m =
     (case selfserviceLogoutHandler m of
        Some h \<Rightarrow> (h, m)
      | None \<Rightarrow> (case alloc m of (h, m1) \<Rightarrow> (h, m1\<lparr>selfserviceLogoutHandler := Some h\<rparr>)))"

text \<open>\<^verbatim>\<open>HealthHandler\<close>, lines 207-214: the new handler takes \<^verbatim>\<open>m.Writer()\<close>.\<close>

definition HealthHandler :: "RegistryDefault \<Rightarrow> ptr \<times> RegistryDefault" where
  "HealthHandler m =
     (case healthxHandler m of
        Some h \<Rightarrow> (h, m)
      | None \<Rightarrow>
          (case Writer m of (w, m1) \<Rightarrow>
           case alloc m1 of (h, m2) \<Rightarrow> (h, m2\<lparr>healthxHandler := Some h\<rparr>)))"

text \<open>\<^verbatim>\<open>MetricsHandler\<close>, lines 216-222.\<close>

definition MetricsHandler :: "RegistryDefault \<Rightarrow> ptr \<times> RegistryDefault" where
  "MetricsHandler m =
     (case metricsHandler m of
        Some h \<Rightarrow> (h, m)
      | None \<Rightarrow>
          (case Writer m of (w, m1) \<Rightarrow>
           case alloc m1 of (h, m2) \<Rightarrow> (h, m2\<lparr>metricsHandler := Some h\<rparr>)))"

text \<open>\<^verbatim>\<open>IdentityValidator\<close>, lines 303-308.\<close>

definition IdentityValidator :: "RegistryDefault \<Rightarrow> ptr \<times> RegistryDefault" where
  "IdentityValidator m =
     (case identityValidator m of
        Some h \<Rightarrow> (h, m)
      | None \<Rightarrow> (case alloc m of (h, m1) \<Rightarrow> (h, m1\<lparr>identityValidator := Some h\<rparr>)))"

text \<open>\<^verbatim>\<open>IdentityHandler\<close>, lines 330-335.\<close>

definition IdentityHandler :: "RegistryDefault \<Rightarrow> ptr \<times> RegistryDefault" where
  "IdentityHandler m =
     (case identityHandler m of
        Some h \<Rightarrow> (h, m)
      | None \<Rightarrow> (case alloc m of (h, m1) \<Rightarrow> (h, m1\<lparr>identityHandler := Some h\<rparr>)))"

text \<open>\<^verbatim>\<open>SchemaHandler\<close>, lines 337-342.\<close>

definition SchemaHandler :: "RegistryDefault \<Rightarrow> ptr \<times> RegistryDefault" where
  "SchemaHandler m =
     (case schemaHandler m of
        Some h \<Rightarrow> (h, m)
      | None \<Rightarrow> (case alloc m of (h, m1) \<Rightarrow> (h, m1\<lparr>schemaHandler := Some h\<rparr>)))"

text \<open>\<^verbatim>\<open>SessionHandler\<close>, lines 344-349.\<close>

definition SessionHandler :: "RegistryDefault \<Rightarrow> ptr \<times> RegistryDefault" where
  "SessionHandler m =
     (case sessionHandler m of
        Some h \<Rightarrow> (h, m)
      | None \<Rightarrow> (case alloc m of (h, m1) \<Rightarrow> (h, m1\<lparr>sessionHandler := Some h\<rparr>)))"

text \<open>\<^verbatim>\<open>Hasher\<close>, lines 351-356.\<close>

definition Hasher :: "RegistryDefault \<Rightarrow> ptr \<times> RegistryDefault" where
  "Hasher m =
     (case passwordHasher m of
        Some h \<Rightarrow> (h, m)
      | None \<Rightarrow> (case alloc m of (h, m1) \<Rightarrow> (h, m1\<lparr>passwordHasher := Some h\<rparr>)))"

text \<open>\<^verbatim>\<open>PasswordValidator\<close>, lines 358-363.\<close>

definition PasswordValidator :: "RegistryDefault \<Rightarrow> ptr \<times> RegistryDefault" where
  "PasswordValidator m =
     (case passwordValidator m of
        Some h \<Rightarrow> (h, m)
      | None \<Rightarrow> (case alloc m of (h, m1) \<Rightarrow> (h, m1\<lparr>passwordValidator := Some h\<rparr>)))"

text \<open>\<^verbatim>\<open>SelfServiceErrorHandler\<close>, lines 365-370.\<close>

definition SelfServiceErrorHandler :: "RegistryDefault \<Rightarrow> ptr \<times> RegistryDefault" where
  "SelfServiceErrorHandler m =
     (case errorHandler m of
        Some h \<Rightarrow> (h, m)
      | None \<Rightarrow> (case alloc m of (h, m1) \<Rightarrow> (h, m1\<lparr>errorHandler := Some h\<rparr>)))"

text \<open>\<^verbatim>\<open>SessionManager\<close>, lines 420-425.\<close>

definition SessionManager :: "RegistryDefault \<Rightarrow> ptr \<times> RegistryDefault" where
  "SessionManager m =
     (case sessionManager m of
        Some h \<Rightarrow> (h, m)
      | None \<Rightarrow> (case alloc m of (h, m1) \<Rightarrow> (h, m1\<lparr>sessionManager := Some h\<rparr>)))"

text \<open>\<^verbatim>\<open>SelfServiceErrorManager\<close>, lines 427-432.\<close>

definition SelfServiceErrorManager :: "RegistryDefault \<Rightarrow> ptr \<times> RegistryDefault" where
  "SelfServiceErrorManager m =
     (case errorManager m of
        Some h \<Rightarrow> (h, m)
      | None \<Rightarrow> (case alloc m of (h, m1) \<Rightarrow> (h, m1\<lparr>errorManager := Some h\<rparr>)))"

text \<open>\<^verbatim>\<open>Courier\<close>, lines 496-501.\<close>

definition Courier :: "RegistryDefault \<Rightarrow> ptr \<times> RegistryDefault" where
  "Courier m =
     (case courier m of
        Some h \<Rightarrow> (h, m)
      | None \<Rightarrow> (case alloc m of (h, m1) \<Rightarrow> (h, m1\<lparr>courier := Some h\<rparr>)))"

text \<open>\<^verbatim>\<open>ContinuityManager\<close>, lines 503-508.\<close>

definition ContinuityManager :: "RegistryDefault \<Rightarrow> ptr \<times> RegistryDefault" where
  "ContinuityManager m =
     (case continuityManager m of
        Some h \<Rightarrow> (h, m)
      | None \<Rightarrow> (case alloc m of (h, m1) \<Rightarrow> (h, m1\<lparr>continuityManager := Some h\<rparr>)))"

text \<open>\<^verbatim>\<open>IdentityManager\<close>, lines 577-582.\<close>

definition IdentityManager :: "RegistryDefault \<Rightarrow> ptr \<times> RegistryDefault" where
  "IdentityManager m =
     (case identityManager m of
        Some h \<Rightarrow> (h, m)
      | None \<Rightarrow> (case alloc m of (h, m1) \<Rightarrow> (h, m1\<lparr>identityManager := Some h\<rparr>)))"

text \<open>
  \<^verbatim>\<open>PrometheusManager\<close>, lines 584-591. The lock it takes orders concurrent callers;
  one call at a time is modelled.
\<close>

definition PrometheusManager :: "RegistryDefault \<Rightarrow> ptr \<times> RegistryDefault" where
  "PrometheusManager m =
     (case pmm m of
        Some h \<Rightarrow> (h, m)
      | None \<Rightarrow> (case alloc m of (h, m1) \<Rightarrow> (h, m1\<lparr>pmm := Some h\<rparr>)))"

text \<open>
  \<^verbatim>\<open>Tracer(ctx)\<close>, lines 407-418. \<^verbatim>\<open>m.Configuration(ctx)\<close> panics without a
  configuration; \<^verbatim>\<open>tracing.New\<close> gets the field \<^verbatim>\<open>m.l\<close>, not \<^verbatim>\<open>m.Logger()\<close>, and
  an error of it ends the process in \<^verbatim>\<open>Fatalf\<close>.
\<close>

definition Tracer :: "ext \<Rightarrow> RegistryDefault \<Rightarrow> ptr outcome" where
  "Tracer x m =
     (case trc m of
        Some t \<Rightarrow> Return t m
      | None \<Rightarrow>
          (case Configuration x m of
             Inl msg \<Rightarrow> Panic msg
           | Inr c \<Rightarrow>
               (case tracing_New x (m_l m) c of
                  Inl msg \<Rightarrow> Panic msg
                | Inr (Some err) \<Rightarrow> Fatal ''Unable to initialize Tracer.''
                | Inr None \<Rightarrow>
                    (case alloc m of (t, m1) \<Rightarrow> Return t (m1\<lparr>trc := Some t\<rparr>)))))"

subsection \<open>Cookie stores\<close>

text \<open>
  \<^verbatim>\<open>sessions.NewCookieStore(keyPairs...)\<close>: a new store with the package's default
  options. A method call on the nil configuration pointer is a nil dereference.
\<close>

definition NewCookieStore :: "ext \<Rightarrow> ptr \<Rightarrow> string list \<Rightarrow> CookieStore" where
  "NewCookieStore x p keyPairs =
     \<lparr>store_ptr = p, Codecs = keyPairs, Options = NewCookieStore_Options x\<rparr>"

definition nil_dereference :: string where
  "nil_dereference = ''runtime error: invalid memory address or nil pointer dereference''"

text \<open>\<^verbatim>\<open>CookieManager\<close>, lines 372-396.\<close>

definition CookieManager :: "ext \<Rightarrow> RegistryDefault \<Rightarrow> CookieStore outcome" where
  "CookieManager x m =
     (case sessionsStore m of
        Some s \<Rightarrow> Return s m
      | None \<Rightarrow>
          (case m_c m of
             None \<Rightarrow> Panic nil_dereference
           | Some c \<Rightarrow>
               (case alloc m of (p, m1) \<Rightarrow>
                  let cs0 = NewCookieStore x p (SecretsSession c);
                      cs1 = cs0\<lparr>Options := (Options cs0)\<lparr>Secure := \<not> IsInsecureDevMode c\<rparr>\<rparr>;
                      cs2 = cs1\<lparr>Options := (Options cs1)\<lparr>HttpOnly := True\<rparr>\<rparr>;
                      cs3 = (if SessionDomain c \<noteq> []
                             then cs2\<lparr>Options := (Options cs2)\<lparr>Domain := SessionDomain c\<rparr>\<rparr>
                             else cs2);
                      cs4 = (if SessionPath c \<noteq> []
                             then cs3\<lparr>Options := (Options cs3)\<lparr>Path := SessionPath c\<rparr>\<rparr>
                             else cs3);
                      cs5 = (if SessionSameSiteMode c \<noteq> 0
                             then cs4\<lparr>Options := (Options cs4)\<lparr>SameSite := SessionSameSiteMode c\<rparr>\<rparr>
                             else cs4);
                      cs6 = cs5\<lparr>Options := (Options cs5)\<lparr>MaxAge := 0\<rparr>\<rparr>;
                      cs7 = (if SessionPersistentCookie c
                             then cs6\<lparr>Options := (Options cs6)\<lparr>MaxAge := int_Seconds x (SessionLifespan c)\<rparr>\<rparr>
                             else cs6)
                  in Return cs7 (m1\<lparr>sessionsStore := Some cs7\<rparr>))))"

text \<open>
  \<^verbatim>\<open>ContinuityCookieManager(ctx)\<close>, lines 398-405; its comment: "To support hot
  reloading, this can not be instantiated only once."
\<close>

definition ContinuityCookieManager :: "ext \<Rightarrow> RegistryDefault \<Rightarrow> CookieStore outcome" where
  "ContinuityCookieManager x m =
     (case Configuration x m of
        Inl msg \<Rightarrow> Panic msg
      | Inr c \<Rightarrow>
          (case alloc m of (p, m1) \<Rightarrow>
             let cs0 = NewCookieStore x p (SecretsSession c) in
             (case Configuration x m1 of
                Inl msg \<Rightarrow> Panic msg
              | Inr c' \<Rightarrow>
                  let cs1 = cs0\<lparr>Options := (Options cs0)\<lparr>Secure := \<not> IsInsecureDevMode c'\<rparr>\<rparr>;
                      cs2 = cs1\<lparr>Options := (Options cs1)\<lparr>HttpOnly := True\<rparr>\<rparr>;
                      cs3 = cs2\<lparr>Options := (Options cs2)\<lparr>SameSite := SameSiteLaxMode\<rparr>\<rparr>
                  in Return cs3 m1)))"

subsection \<open>Strategy sets\<close>

text \<open>\<^verbatim>\<open>selfServiceStrategies\<close>, lines 242-253.\<close>

definition selfServiceStrategies :: "ext \<Rightarrow> RegistryDefault \<Rightarrow> strategy list \<times> RegistryDefault" where
  "selfServiceStrategies x m =
     (if length (selfserviceStrategies m) = 0
      then (let ss = [password_NewStrategy x, oidc_NewStrategy x,
                      profile_NewStrategy x, link_NewStrategy x]
            in (ss, m\<lparr>selfserviceStrategies := ss\<rparr>))
      else (selfserviceStrategies m, m))"

text \<open>
  The loop of \<^verbatim>\<open>RegistrationStrategies\<close>, lines 257-263: each strategy that is a
  \<^verbatim>\<open>registration.Strategy\<close> and whose identifier the configuration enables is
  appended to \<^verbatim>\<open>m.registrationStrategies\<close>.
\<close>

fun RegistrationStrategies_loop :: "strategy list \<Rightarrow> RegistryDefault \<Rightarrow> unit outcome" where
  "RegistrationStrategies_loop [] m = Return () m"
| "RegistrationStrategies_loop (s # rest) m =
     (if is_registration_Strategy s
      then (case m_c m of
              None \<Rightarrow> Panic nil_dereference
            | Some c \<Rightarrow>
                if SelfServiceStrategy_Enabled c (ID s)
                then RegistrationStrategies_loop rest
                       (m\<lparr>registrationStrategies := registrationStrategies m @ [s]\<rparr>)
                else RegistrationStrategies_loop rest m)
      else RegistrationStrategies_loop rest m)"

text \<open>\<^verbatim>\<open>RegistrationStrategies\<close>, lines 255-266.\<close>

definition RegistrationStrategies :: "ext \<Rightarrow> RegistryDefault \<Rightarrow> strategy list outcome" where
  "RegistrationStrategies x m =
     (if length (registrationStrategies m) = 0
      then (case selfServiceStrategies x m of (ss, m1) \<Rightarrow>
              (case RegistrationStrategies_loop ss m1 of
                 Panic msg \<Rightarrow> Panic msg
               | Fatal msg \<Rightarrow> Fatal msg
               | Return u m2 \<Rightarrow> Return (registrationStrategies m2) m2))
      else Return (registrationStrategies m) m)"

text \<open>The loop of \<^verbatim>\<open>LoginStrategies\<close>, lines 270-276.\<close>

fun LoginStrategies_loop :: "strategy list \<Rightarrow> RegistryDefault \<Rightarrow> unit outcome" where
  "LoginStrategies_loop [] m = Return () m"
| "LoginStrategies_loop (s # rest) m =
     (if is_login_Strategy s
      then (case m_c m of
              None \<Rightarrow> Panic nil_dereference
            | Some c \<Rightarrow>
                if SelfServiceStrategy_Enabled c (ID s)
                then LoginStrategies_loop rest (m\<lparr>loginStrategies := loginStrategies m @ [s]\<rparr>)
                else LoginStrategies_loop rest m)
      else LoginStrategies_loop rest m)"

text \<open>\<^verbatim>\<open>LoginStrategies\<close>, lines 268-279.\<close>

definition LoginStrategies :: "ext \<Rightarrow> RegistryDefault \<Rightarrow> strategy list outcome" where
  "LoginStrategies x m =
     (if length (loginStrategies m) = 0
      then (case selfServiceStrategies x m of (ss, m1) \<Rightarrow>
              (case LoginStrategies_loop ss m1 of
                 Panic msg \<Rightarrow> Panic msg
               | Fatal msg \<Rightarrow> Fatal msg
               | Return u m2 \<Rightarrow> Return (loginStrategies m2) m2))
      else Return (loginStrategies m) m)"

text \<open>
  The loop of \<^verbatim>\<open>VerificationStrategies\<close>, lines 283-287: the configuration is not
  read.
\<close>

fun VerificationStrategies_loop :: "strategy list \<Rightarrow> RegistryDefault \<Rightarrow> RegistryDefault" where
  "VerificationStrategies_loop [] m = m"
| "VerificationStrategies_loop (s # rest) m =
     (if is_verification_Strategy s
      then VerificationStrategies_loop rest
             (m\<lparr>verificationStrategies := verificationStrategies m @ [s]\<rparr>)
      else VerificationStrategies_loop rest m)"

text \<open>\<^verbatim>\<open>VerificationStrategies\<close>, lines 281-290.\<close>

definition VerificationStrategies :: "ext \<Rightarrow> RegistryDefault \<Rightarrow> strategy list \<times> RegistryDefault" where
  "VerificationStrategies x m =
     (if length (verificationStrategies m) = 0
      then (case selfServiceStrategies x m of (ss, m1) \<Rightarrow>
              (let m2 = VerificationStrategies_loop ss m1
               in (verificationStrategies m2, m2)))
      else (verificationStrategies m, m))"

text \<open>The loop of \<^verbatim>\<open>ActiveCredentialsCounterStrategies\<close>, lines 294-298.\<close>

fun ActiveCredentialsCounterStrategies_loop ::
  "strategy list \<Rightarrow> RegistryDefault \<Rightarrow> RegistryDefault" where
  "ActiveCredentialsCounterStrategies_loop [] m = m"
| "ActiveCredentialsCounterStrategies_loop (s # rest) m =
     (if is_ActiveCredentialsCounter s
      then ActiveCredentialsCounterStrategies_loop rest
             (m\<lparr>activeCredentialsCounterStrategies :=
                  activeCredentialsCounterStrategies m @ [s]\<rparr>)
      else ActiveCredentialsCounterStrategies_loop rest m)"

text \<open>\<^verbatim>\<open>ActiveCredentialsCounterStrategies(ctx)\<close>, lines 292-301.\<close>

definition ActiveCredentialsCounterStrategies ::
  "ext \<Rightarrow> RegistryDefault \<Rightarrow> strategy list \<times> RegistryDefault" where
  "ActiveCredentialsCounterStrategies x m =
     (if length (activeCredentialsCounterStrategies m) = 0
      then (case selfServiceStrategies x m of (ss, m1) \<Rightarrow>
              (let m2 = ActiveCredentialsCounterStrategies_loop ss m1
               in (activeCredentialsCounterStrategies m2, m2)))
      else (activeCredentialsCounterStrategies m, m))"

subsection \<open>The persister and its bootstrap\<close>

text \<open>
  The getters of lines 510-560 return the field \<^verbatim>\<open>m.persister\<close> under the interface
  each caller needs.
\<close>

definition Persister :: "RegistryDefault \<Rightarrow> sql_Persister option" where
  "Persister m = persister m"

definition ContinuityPersister :: "RegistryDefault \<Rightarrow> sql_Persister option" where
  "ContinuityPersister m = persister m"

definition IdentityPool :: "RegistryDefault \<Rightarrow> sql_Persister option" where
  "IdentityPool m = persister m"

definition PrivilegedIdentityPool :: "RegistryDefault \<Rightarrow> sql_Persister option" where
  "PrivilegedIdentityPool m = persister m"

definition RegistrationFlowPersister :: "RegistryDefault \<Rightarrow> sql_Persister option" where
  "RegistrationFlowPersister m = persister m"

definition RecoveryFlowPersister :: "RegistryDefault \<Rightarrow> sql_Persister option" where
  "RecoveryFlowPersister m = persister m"

definition LoginFlowPersister :: "RegistryDefault \<Rightarrow> sql_Persister option" where
  "LoginFlowPersister m = persister m"

definition SettingsFlowPersister :: "RegistryDefault \<Rightarrow> sql_Persister option" where
  "SettingsFlowPersister m = persister m"

definition SelfServiceErrorPersister :: "RegistryDefault \<Rightarrow> sql_Persister option" where
  "SelfServiceErrorPersister m = persister m"

definition SessionPersister :: "RegistryDefault \<Rightarrow> sql_Persister option" where
  "SessionPersister m = persister m"

definition CourierPersister :: "RegistryDefault \<Rightarrow> sql_Persister option" where
  "CourierPersister m = persister m"

definition RecoveryTokenPersister :: "RegistryDefault \<Rightarrow> sql_Persister option" where
  "RecoveryTokenPersister m = Persister m"

definition VerificationTokenPersister :: "RegistryDefault \<Rightarrow> sql_Persister option" where
  "VerificationTokenPersister m = Persister m"

text \<open>
  \<^verbatim>\<open>Ping\<close>, lines 562-564: \<^verbatim>\<open>m.persister.Ping()\<close>, a method call on a nil interface
  when there is no persister (\<open>Inl\<close> the panic). \<open>t\<close> is the moment of the call.
\<close>

definition Ping :: "world \<Rightarrow> nat \<Rightarrow> RegistryDefault \<Rightarrow> string + error option" where
  "Ping w t m =
     (case persister m of
        None \<Rightarrow> Inl nil_dereference
      | Some p \<Rightarrow> Inr (Persister_Ping w t p))"

text \<open>
  The connection details of lines 457-463, from the DSN of the contextualized
  configuration. Both calls into sqlcon get the field \<^verbatim>\<open>m.l\<close> (\<open>l\<close>), not
  \<^verbatim>\<open>m.Logger()\<close>; a panic of either is \<open>Inl\<close>.
\<close>

definition Init_ConnectionDetails ::
  "ext \<Rightarrow> ptr option \<Rightarrow> config \<Rightarrow> string + ConnectionDetails" where
  "Init_ConnectionDetails x l cc =
     (case ParseConnectionOptions x l (DSN cc) of
        Inl msg \<Rightarrow> Inl msg
      | Inr (pool, idlePool, connMaxLifetime, cleanedDSN) \<Rightarrow>
          (case FinalizeDSN x l cleanedDSN of
             Inl msg \<Rightarrow> Inl msg
           | Inr url \<Rightarrow>
               Inr \<lparr>URL = url, IdlePool = idlePool, ConnMaxLifetime = connMaxLifetime,
                    Pool = pool\<rparr>))"

text \<open>
  The function that Init hands to \<^verbatim>\<open>backoff.Retry\<close>, lines 456-492, in its \<open>k\<close>-th
  run. It returns the calls and log lines it made, and the error it returns (\<open>None\<close>
  is nil) with the registry it leaves, or the panic of a call it made.
\<close>

definition Init_operation ::
  "ext \<Rightarrow> world \<Rightarrow> nat \<Rightarrow> RegistryDefault \<Rightarrow> event list \<times> error option outcome" where
  "Init_operation x w k m =
     (case Configuration x m of
        Inl msg \<Rightarrow> ([], Panic msg)
      | Inr cc \<Rightarrow>
          (case Init_ConnectionDetails x (m_l m) cc of
             Inl msg \<Rightarrow> ([], Panic msg)
           | Inr details \<Rightarrow>
          (case pop_NewConnection w k details of
             Inl err \<Rightarrow>
               (case Logger m of (l, m1) \<Rightarrow>
                  ([Call_NewConnection, Warnf ''Unable to connect to database, retrying.''],
                   Return (errors_WithStack (Some err)) m1))
           | Inr c \<Rightarrow>
          (case Connection_Open w k c of
             Some err \<Rightarrow>
               (case Logger m of (l, m1) \<Rightarrow>
                  ([Call_NewConnection, Call_Open,
                    Warnf ''Unable to open database, retrying.''],
                   Return (errors_WithStack (Some err)) m1))
           | None \<Rightarrow>
          (case sql_NewPersister w k c of
             Inl err \<Rightarrow>
               (case Logger m of (l, m1) \<Rightarrow>
                  ([Call_NewConnection, Call_Open, Call_NewPersister,
                    Warnf ''Unable to initialize persister, retrying.''],
                   Return (Some err) m1))
           | Inr p \<Rightarrow>
          (case Persister_Ping w k p of
             Some err \<Rightarrow>
               (case Logger m of (l, m1) \<Rightarrow>
                  ([Call_NewConnection, Call_Open, Call_NewPersister, Call_Ping,
                    Warnf ''Unable to ping database, retrying.''],
                   Return (Some err) m1))
           | None \<Rightarrow>
          (case m_c m of
             None \<Rightarrow>
               ([Call_NewConnection, Call_Open, Call_NewPersister, Call_Ping],
                Panic nil_dereference)
           | Some c0 \<Rightarrow>
               if InMemoryDSN x = DSN c0
               then (case Logger m of (l, m1) \<Rightarrow>
                      (case Persister_MigrateUp w k p of
                         Some err \<Rightarrow>
                           ([Call_NewConnection, Call_Open, Call_NewPersister, Call_Ping,
                             Infoln ''ORY Kratos is running migrations on every startup as DSN is memory. This means your data is lost when Kratos terminates.'',
                             Call_MigrateUp],
                            Return (Some err) m1)
                       | None \<Rightarrow>
                           ([Call_NewConnection, Call_Open, Call_NewPersister, Call_Ping,
                             Infoln ''ORY Kratos is running migrations on every startup as DSN is memory. This means your data is lost when Kratos terminates.'',
                             Call_MigrateUp],
                            Return None (m1\<lparr>persister := Some p\<rparr>))))
               else ([Call_NewConnection, Call_Open, Call_NewPersister, Call_Ping],
                     Return None (m\<lparr>persister := Some p\<rparr>)))))))))"

text \<open>
  \<^verbatim>\<open>backoff.Retry(operation, b)\<close> of github.com/cenkalti/backoff: it runs the
  operation; nil ends it with nil; after an error it asks \<^verbatim>\<open>b.NextBackOff()\<close>, which
  either answers \<^verbatim>\<open>Stop\<close>, and Retry returns that error, or a delay, after which the
  operation runs again. \<open>g\<close> is the number of delays the policy still grants.
\<close>

fun Retry_loop ::
  "(nat \<Rightarrow> RegistryDefault \<Rightarrow> event list \<times> error option outcome) \<Rightarrow> nat \<Rightarrow> nat \<Rightarrow>
     RegistryDefault \<Rightarrow> event list \<times> error option outcome" where
  "Retry_loop operation k 0 m = operation k m"
| "Retry_loop operation k (Suc g) m =
     (case operation k m of
        (evs, Return (Some err) m1) \<Rightarrow>
          (case Retry_loop operation (Suc k) g m1 of (evs', r) \<Rightarrow> (evs @ evs', r))
      | (evs, r) \<Rightarrow> (evs, r))"

definition backoff_Retry ::
  "world \<Rightarrow> (nat \<Rightarrow> RegistryDefault \<Rightarrow> event list \<times> error option outcome) \<Rightarrow>
     ExponentialBackOff \<Rightarrow> RegistryDefault \<Rightarrow> event list \<times> error option outcome" where
  "backoff_Retry w operation b m = Retry_loop operation 0 (NextBackOff_grants w b) m"

text \<open>\<^verbatim>\<open>Init(ctx)\<close>, lines 446-494.\<close>

definition Init :: "ext \<Rightarrow> world \<Rightarrow> RegistryDefault \<Rightarrow> event list \<times> error option outcome" where
  "Init x w m =
     (if persister m \<noteq> None
      then ([], Panic ''RegistryDefault.Init() must not be called more than once.'')
      else (let bc = (NewExponentialBackOff x)\<lparr>MaxElapsedTime := Minute * 5\<rparr>
            in (case backoff_Retry w (Init_operation x w) bc m of
                  (evs, Return err m1) \<Rightarrow> (evs, Return (errors_WithStack err) m1)
                | (evs, r) \<Rightarrow> (evs, r))))"

subsection \<open>Observations and example values\<close>



text \<open>The value a call returned, and the registry it left, if it returned.\<close>

fun returned :: "'a outcome \<Rightarrow> 'a option" where
  "returned (Return v m) = Some v"
| "returned (Panic msg) = None"
| "returned (Fatal msg) = None"

fun registry_after :: "'a outcome \<Rightarrow> RegistryDefault option" where
  "registry_after (Return v m) = Some m"
| "registry_after (Panic msg) = None"
| "registry_after (Fatal msg) = None"




text \<open>
  One call on the registry, other than an Init that returns nil: \<open>call m m'\<close> when
  one of the functions above, called on the registry \<open>m\<close>, returns and leaves
  \<open>m'\<close>. A reload of the configuration is \<open>WithConfig\<close> with the new values.
\<close>

inductive call :: "RegistryDefault \<Rightarrow> RegistryDefault \<Rightarrow> bool" where
  call_WithConfig: "call m (WithConfig c m)"
| call_WithLogger: "call m (WithLogger l m)"
| call_Logger: "call m (snd (Logger m))"
| call_Audit: "call m (snd (Audit m))"
| call_Writer: "call m (snd (Writer m))"
| call_LogoutHandler: "call m (snd (LogoutHandler m))"
| call_HealthHandler: "call m (snd (HealthHandler m))"
| call_MetricsHandler: "call m (snd (MetricsHandler m))"
| call_IdentityValidator: "call m (snd (IdentityValidator m))"
| call_IdentityHandler: "call m (snd (IdentityHandler m))"
| call_SchemaHandler: "call m (snd (SchemaHandler m))"
| call_SessionHandler: "call m (snd (SessionHandler m))"
| call_Hasher: "call m (snd (Hasher m))"
| call_PasswordValidator: "call m (snd (PasswordValidator m))"
| call_SelfServiceErrorHandler: "call m (snd (SelfServiceErrorHandler m))"
| call_SessionManager: "call m (snd (SessionManager m))"
| call_SelfServiceErrorManager: "call m (snd (SelfServiceErrorManager m))"
| call_Courier: "call m (snd (Courier m))"
| call_ContinuityManager: "call m (snd (ContinuityManager m))"
| call_IdentityManager: "call m (snd (IdentityManager m))"
| call_PrometheusManager: "call m (snd (PrometheusManager m))"
| call_selfServiceStrategies: "call m (snd (selfServiceStrategies x m))"
| call_VerificationStrategies: "call m (snd (VerificationStrategies x m))"
| call_ActiveCredentialsCounterStrategies:
    "call m (snd (ActiveCredentialsCounterStrategies x m))"
| call_RegistrationStrategies: "RegistrationStrategies x m = Return ss m1 \<Longrightarrow> call m m1"
| call_LoginStrategies: "LoginStrategies x m = Return ss m1 \<Longrightarrow> call m m1"
| call_Tracer: "Tracer x m = Return t m1 \<Longrightarrow> call m m1"
| call_CookieManager: "CookieManager x m = Return cs m1 \<Longrightarrow> call m m1"
| call_ContinuityCookieManager: "ContinuityCookieManager x m = Return cs m1 \<Longrightarrow> call m m1"
| call_Init_error: "Init x w m = (evs, Return (Some err) m1) \<Longrightarrow> call m m1"

text \<open>
  A getter is memoized when, after a first call, it returns the component of that call
  again and changes nothing, in every state that later calls have led to.
\<close>

definition memoized :: "(RegistryDefault \<Rightarrow> 'a \<times> RegistryDefault) \<Rightarrow> bool" where
  "memoized g = (\<forall>m m2. call\<^sup>*\<^sup>* (snd (g m)) m2 \<longrightarrow> g m2 = (fst (g m), m2))"



text \<open>
  A configuration, the packages' behaviour and a database for the examples: the
  password mechanism is the only one enabled, the DSN is the in-memory one of
  ory/x/dbal, cookies are persistent with a lifespan of 24 hours; a new cookie store of
  gorilla/sessions has path "/" and a max-age of 30 days; \<^verbatim>\<open>int(d.Seconds())\<close> cuts
  the nanoseconds off, towards zero; the calls that get the logger panic on a nil
  logger; the database refuses the connection in attempt 0 and the ping in attempt 1,
  and the back-off policy grants three delays.
\<close>

definition example_config :: config where
  "example_config =
     \<lparr>DSN = ''sqlite://:memory:?_fk=true'',
      SelfServiceStrategy_Enabled = (\<lambda>i. i = ''password''),
      SecretsSession = [''session-secret''],
      IsInsecureDevMode = False,
      SessionDomain = ''example.org'',
      SessionPath = [],
      SessionSameSiteMode = 0,
      SessionPersistentCookie = True,
      SessionLifespan = 24 * 60 * Minute\<rparr>"

definition example_ext :: ext where
  "example_ext =
     \<lparr>NewCookieStore_Options =
        \<lparr>Path = ''/'', Domain = [], MaxAge = 86400 * 30, Secure = False, HttpOnly = False,
         SameSite = 0\<rparr>,
      int_Seconds = (\<lambda>d. if 0 \<le> d then d div 1000000000 else - ((- d) div 1000000000)),
      ContextualizeConfig = (\<lambda>c. c),
      InMemoryDSN = ''sqlite://:memory:?_fk=true'',
      ParseConnectionOptions =
        (\<lambda>l dsn. case l of None \<Rightarrow> Inl nil_dereference | Some a \<Rightarrow> Inr (0, 0, 0, dsn)),
      FinalizeDSN = (\<lambda>l dsn. case l of None \<Rightarrow> Inl nil_dereference | Some a \<Rightarrow> Inr dsn),
      NewExponentialBackOff = \<lparr>MaxElapsedTime = 15 * Minute\<rparr>,
      password_NewStrategy =
        \<lparr>ID = ''password'', is_registration_Strategy = True, is_login_Strategy = True,
         is_verification_Strategy = False, is_ActiveCredentialsCounter = True\<rparr>,
      oidc_NewStrategy =
        \<lparr>ID = ''oidc'', is_registration_Strategy = True, is_login_Strategy = True,
         is_verification_Strategy = False, is_ActiveCredentialsCounter = True\<rparr>,
      profile_NewStrategy =
        \<lparr>ID = ''profile'', is_registration_Strategy = False, is_login_Strategy = False,
         is_verification_Strategy = False, is_ActiveCredentialsCounter = False\<rparr>,
      link_NewStrategy =
        \<lparr>ID = ''link'', is_registration_Strategy = False, is_login_Strategy = False,
         is_verification_Strategy = True, is_ActiveCredentialsCounter = False\<rparr>,
      tracing_New = (\<lambda>l c. case l of None \<Rightarrow> Inl nil_dereference | Some a \<Rightarrow> Inr None)\<rparr>"

definition example_world :: world where
  "example_world =
     \<lparr>pop_NewConnection =
        (\<lambda>k d. if k = 0 then Inl (Error ''connection refused'') else Inr (Connection d)),
      Connection_Open = (\<lambda>k c. None),
      sql_NewPersister = (\<lambda>k c. Inr (PersisterAt k)),
      Persister_Ping = (\<lambda>k p. if k = 1 then Some (Error ''bad connection'') else None),
      Persister_MigrateUp = (\<lambda>k p. None),
      NextBackOff_grants = (\<lambda>b. 3)\<rparr>"

definition example_registry :: RegistryDefault where
  "example_registry = WithConfig (Some example_config) NewRegistryDefault"

text \<open>The example registry after a call of \<open>Logger\<close>: its logger is built.\<close>

definition example_registry_with_logger :: RegistryDefault where
  "example_registry_with_logger = snd (Logger example_registry)"

text \<open>
  The example configuration with every mechanism disabled, and the example registry as
  the first call of \<open>RegistrationStrategies\<close> leaves it.
\<close>

definition disabled_config :: config where
  "disabled_config = example_config\<lparr>SelfServiceStrategy_Enabled := (\<lambda>i. False)\<rparr>"

definition example_registry_after_registration :: RegistryDefault where
  "example_registry_after_registration =
     example_registry
       \<lparr>selfserviceStrategies :=
          [password_NewStrategy example_ext, oidc_NewStrategy example_ext,
           profile_NewStrategy example_ext, link_NewStrategy example_ext],
        registrationStrategies := [password_NewStrategy example_ext]\<rparr>"



text \<open>
  The example registry with its logger as Init leaves it with the example database.
\<close>

definition example_registry_after_Init :: RegistryDefault where
  "example_registry_after_Init =
     example_registry_with_logger\<lparr>persister := Some (PersisterAt 2)\<rparr>"

text \<open>The example configuration with a DSN that is not the in-memory one.\<close>

definition postgres_config :: config where
  "postgres_config = example_config\<lparr>DSN := ''postgres://kratos@db:5432/kratos''\<rparr>"




section \<open>Properties\<close>

subsection \<open>Data source names\<close>

lemma HasPrefix_iff: "HasPrefix s p \<longleftrightarrow> (\<exists>rest. s = p @ rest)"
proof
  assume "HasPrefix s p"
  then have "s = p @ drop (length p) s"
    unfolding HasPrefix_def by (metis append_take_drop_id)
  then show "\<exists>rest. s = p @ rest" ..
next
  assume "\<exists>rest. s = p @ rest"
  then show "HasPrefix s p"
    unfolding HasPrefix_def by auto
qed

lemma any_prefix:
  "(\<exists>p rest. p \<in> set ps \<and> s = p @ rest) \<longleftrightarrow> list_ex (HasPrefix s) ps"
  by (auto simp: list_ex_iff HasPrefix_iff)

text \<open>
  Claim C6. \<open>CanHandle dsn\<close> is true exactly when \<open>dsn\<close> is the in-memory DSN
  \<open>''memory''\<close> or begins with one of the prefixes sqlite, sqlite3, mysql, postgres,
  postgresql, cockroach, cockroachdb, crdb; it is false for every other string.
\<close>

theorem CanHandle_exactly_the_supported_prefixes:
  "CanHandle dsn \<longleftrightarrow>
     (dsn = ''memory'' \<or>
      (\<exists>p rest. p \<in> set [''sqlite'', ''sqlite3'', ''mysql'', ''postgres'', ''postgresql'',
                           ''cockroach'', ''cockroachdb'', ''crdb''] \<and> dsn = p @ rest))"
  unfolding CanHandle_def any_prefix list_ex_Cons_iff list_ex_Nil_iff by blast

theorem CanHandle_exactly_the_supported_prefixes_witness:
  "CanHandle ''postgres://kratos@db:5432/kratos'' \<and> \<not> CanHandle ''mongodb://db''"
proof -
  have "''postgres://kratos@db:5432/kratos'' = ''postgres'' @ ''://kratos@db:5432/kratos''"
    by simp
  then have a: "CanHandle ''postgres://kratos@db:5432/kratos''"
    using CanHandle_exactly_the_supported_prefixes [of "''postgres://kratos@db:5432/kratos''"]
    by (meson list.set_intros)
  have "\<not> (''mongodb://db'' = ''memory'' \<or>
           list_ex (HasPrefix ''mongodb://db'')
             [''sqlite'', ''sqlite3'', ''mysql'', ''postgres'', ''postgresql'',
              ''cockroach'', ''cockroachdb'', ''crdb''])"
    by (simp add: HasPrefix_def)
  then have c: "\<not> CanHandle ''mongodb://db''"
    using CanHandle_exactly_the_supported_prefixes [of "''mongodb://db''"]
    unfolding any_prefix by blast
  from a c show ?thesis by simp
qed

subsection \<open>The example values\<close>

lemma example_registry_fields:
  "sessionsStore example_registry = None" "m_c example_registry = Some example_config"
  "persister example_registry = None" "registrationStrategies example_registry = []"
  "loginStrategies example_registry = []" "verificationStrategies example_registry = []"
  "selfserviceStrategies example_registry = []" "m_l example_registry = None"
  "next_ptr example_registry = 0"
  by (simp_all add: example_registry_def WithConfig_def NewRegistryDefault_def)

lemma example_ext_fields:
  "password_NewStrategy example_ext =
     \<lparr>ID = ''password'', is_registration_Strategy = True, is_login_Strategy = True,
      is_verification_Strategy = False, is_ActiveCredentialsCounter = True\<rparr>"
  "oidc_NewStrategy example_ext =
     \<lparr>ID = ''oidc'', is_registration_Strategy = True, is_login_Strategy = True,
      is_verification_Strategy = False, is_ActiveCredentialsCounter = True\<rparr>"
  "profile_NewStrategy example_ext =
     \<lparr>ID = ''profile'', is_registration_Strategy = False, is_login_Strategy = False,
      is_verification_Strategy = False, is_ActiveCredentialsCounter = False\<rparr>"
  "link_NewStrategy example_ext =
     \<lparr>ID = ''link'', is_registration_Strategy = False, is_login_Strategy = False,
      is_verification_Strategy = True, is_ActiveCredentialsCounter = False\<rparr>"
  "InMemoryDSN example_ext = ''sqlite://:memory:?_fk=true''"
  "ContextualizeConfig example_ext c = c"
  "ParseConnectionOptions example_ext (Some a) dsn = Inr (0, 0, 0, dsn)"
  "ParseConnectionOptions example_ext None dsn = Inl nil_dereference"
  "FinalizeDSN example_ext (Some a) dsn = Inr dsn"
  "NewExponentialBackOff example_ext = \<lparr>MaxElapsedTime = 15 * Minute\<rparr>"
  "int_Seconds example_ext d =
     (if 0 \<le> d then d div 1000000000 else - ((- d) div 1000000000))"
  "NewCookieStore_Options example_ext =
     \<lparr>Path = ''/'', Domain = [], MaxAge = 86400 * 30, Secure = False, HttpOnly = False,
      SameSite = 0\<rparr>"
  "tracing_New example_ext (Some a) c = Inr None"
  by (simp_all add: example_ext_def)

lemma example_config_fields:
  "DSN example_config = ''sqlite://:memory:?_fk=true''"
  "SelfServiceStrategy_Enabled example_config i = (i = ''password'')"
  "SecretsSession example_config = [''session-secret'']"
  "IsInsecureDevMode example_config = False"
  "SessionDomain example_config = ''example.org''"
  "SessionPath example_config = []"
  "SessionSameSiteMode example_config = 0"
  "SessionPersistentCookie example_config = True"
  "SessionLifespan example_config = 24 * 60 * Minute"
  by (simp_all add: example_config_def)

subsection \<open>Cookie stores\<close>

text \<open>
  Claim C7. When \<open>CookieManager\<close> builds the session cookie store (no store is memoized
  yet), the store's max-age is 0 if the persistent-cookie setting is off, and the
  configured session lifespan converted by Go's \<^verbatim>\<open>int(d.Seconds())\<close> if it is on; in
  both cases the store is HTTP-only, and secure exactly when dev mode is off; domain,
  path and same-site are the configured values when these are non-empty (non-zero), and
  the defaults of \<^verbatim>\<open>sessions.NewCookieStore\<close> otherwise.
\<close>

theorem CookieManager_builds_session_store:
  assumes "sessionsStore m = None" and "m_c m = Some c"
  shows "\<exists>cs m1. CookieManager x m = Return cs m1 \<and> sessionsStore m1 = Some cs \<and>
           Codecs cs = SecretsSession c \<and>
           MaxAge (Options cs) =
             (if SessionPersistentCookie c then int_Seconds x (SessionLifespan c) else 0) \<and>
           HttpOnly (Options cs) = True \<and>
           Secure (Options cs) = (\<not> IsInsecureDevMode c) \<and>
           Domain (Options cs) =
             (if SessionDomain c \<noteq> '''' then SessionDomain c
              else Domain (NewCookieStore_Options x)) \<and>
           Path (Options cs) =
             (if SessionPath c \<noteq> '''' then SessionPath c
              else Path (NewCookieStore_Options x)) \<and>
           SameSite (Options cs) =
             (if SessionSameSiteMode c \<noteq> 0 then SessionSameSiteMode c
              else SameSite (NewCookieStore_Options x))"
  using assms
  by (simp add: CookieManager_def NewCookieStore_def alloc_def Let_def)

theorem CookieManager_builds_session_store_witness:
  "map_option Options (returned (CookieManager example_ext example_registry)) =
     Some \<lparr>Path = ''/'', Domain = ''example.org'', MaxAge = 86400, Secure = True,
           HttpOnly = True, SameSite = 0\<rparr> \<and>
   map_option Options (returned (CookieManager example_ext
      (example_registry\<lparr>m_c := Some (example_config\<lparr>SessionPersistentCookie := False\<rparr>)\<rparr>))) =
     Some \<lparr>Path = ''/'', Domain = ''example.org'', MaxAge = 0, Secure = True,
           HttpOnly = True, SameSite = 0\<rparr>"
proof -
  let ?c = "example_config\<lparr>SessionPersistentCookie := False\<rparr>"
  let ?m = "example_registry\<lparr>m_c := Some ?c\<rparr>"
  have s': "sessionsStore ?m = None"
    by (simp add: example_registry_fields)
  have c': "m_c ?m = Some ?c"
    by simp
  obtain cs m1 where 1: "CookieManager example_ext example_registry = Return cs m1"
    and 2: "MaxAge (Options cs) = 86400" "HttpOnly (Options cs)" "Secure (Options cs)"
      "Domain (Options cs) = ''example.org''" "Path (Options cs) = ''/''"
      "SameSite (Options cs) = 0"
    using CookieManager_builds_session_store
      [OF example_registry_fields(1) example_registry_fields(2), of example_ext]
    by (auto simp: example_config_def example_ext_def Minute_def)
  obtain cs' m1' where 3: "CookieManager example_ext ?m = Return cs' m1'"
    and 4: "MaxAge (Options cs') = 0" "HttpOnly (Options cs')" "Secure (Options cs')"
      "Domain (Options cs') = ''example.org''" "Path (Options cs') = ''/''"
      "SameSite (Options cs') = 0"
    using CookieManager_builds_session_store [OF s' c', of example_ext]
    by (auto simp: example_config_def example_ext_def Minute_def)
  have "Options cs = \<lparr>Path = ''/'', Domain = ''example.org'', MaxAge = 86400, Secure = True,
           HttpOnly = True, SameSite = 0\<rparr>"
    using 2 by (cases "Options cs") simp
  moreover have "Options cs' = \<lparr>Path = ''/'', Domain = ''example.org'', MaxAge = 0,
           Secure = True, HttpOnly = True, SameSite = 0\<rparr>"
    using 4 by (cases "Options cs'") simp
  ultimately show ?thesis
    using 1 3 by simp
qed

text \<open>
  Claim C8, as amended. The store that \<open>ContinuityCookieManager\<close> returns is
  same-site-lax, HTTP-only, secure exactly when dev mode is off in the contextualized
  configuration, and its max-age is never set: it is the max-age that
  \<^verbatim>\<open>sessions.NewCookieStore\<close> gives a new store, whatever that is.
\<close>

theorem ContinuityCookieManager_builds_fresh_store:
  assumes "m_c m = Some c"
  shows "\<exists>cs m1. ContinuityCookieManager x m = Return cs m1 \<and>
           Codecs cs = SecretsSession (ContextualizeConfig x c) \<and>
           SameSite (Options cs) = SameSiteLaxMode \<and>
           HttpOnly (Options cs) = True \<and>
           Secure (Options cs) = (\<not> IsInsecureDevMode (ContextualizeConfig x c)) \<and>
           MaxAge (Options cs) = MaxAge (NewCookieStore_Options x) \<and>
           Path (Options cs) = Path (NewCookieStore_Options x) \<and>
           Domain (Options cs) = Domain (NewCookieStore_Options x) \<and>
           sessionsStore m1 = sessionsStore m"
  using assms
  by (simp add: ContinuityCookieManager_def Configuration_def NewCookieStore_def alloc_def
      Let_def)

theorem ContinuityCookieManager_builds_fresh_store_witness:
  "map_option Options (returned (ContinuityCookieManager example_ext example_registry)) =
     Some \<lparr>Path = ''/'', Domain = '''', MaxAge = 2592000, Secure = True, HttpOnly = True,
           SameSite = 2\<rparr>"
proof -
  obtain cs m1 where 1: "ContinuityCookieManager example_ext example_registry = Return cs m1"
    and 2: "MaxAge (Options cs) = 2592000" "HttpOnly (Options cs)" "Secure (Options cs)"
      "Domain (Options cs) = ''''" "Path (Options cs) = ''/''"
      "SameSite (Options cs) = 2"
    using ContinuityCookieManager_builds_fresh_store
      [OF example_registry_fields(2), of example_ext]
    by (auto simp: example_config_def example_ext_def SameSiteLaxMode_def)
  have "Options cs = \<lparr>Path = ''/'', Domain = '''', MaxAge = 2592000, Secure = True,
           HttpOnly = True, SameSite = 2\<rparr>"
    using 2 by (cases "Options cs") simp
  then show ?thesis
    using 1 by simp
qed

text \<open>
  The claim as stated, that the continuity cookie is a session cookie (max-age 0), fails
  with the defaults of gorilla/sessions, where a new store has a max-age of 30 days:
  the continuity store keeps these 2592000 seconds.
\<close>

theorem ContinuityCookieManager_max_age_is_the_default:
  "map_option MaxAge (map_option Options
      (returned (ContinuityCookieManager example_ext example_registry))) = Some 2592000"
  by (simp add: ContinuityCookieManager_def Configuration_def NewCookieStore_def alloc_def
      Let_def example_registry_fields example_ext_def)

subsection \<open>Strategy sets\<close>

lemma RegistrationStrategies_loop_filter:
  "m_c m = Some c \<Longrightarrow>
   RegistrationStrategies_loop ss m =
     Return () (m\<lparr>registrationStrategies := registrationStrategies m @
        filter (\<lambda>s. is_registration_Strategy s \<and> SelfServiceStrategy_Enabled c (ID s)) ss\<rparr>)"
  by (induction ss arbitrary: m) simp_all

lemma LoginStrategies_loop_filter:
  "m_c m = Some c \<Longrightarrow>
   LoginStrategies_loop ss m =
     Return () (m\<lparr>loginStrategies := loginStrategies m @
        filter (\<lambda>s. is_login_Strategy s \<and> SelfServiceStrategy_Enabled c (ID s)) ss\<rparr>)"
  by (induction ss arbitrary: m) simp_all

lemma VerificationStrategies_loop_filter:
  "VerificationStrategies_loop ss m =
     m\<lparr>verificationStrategies := verificationStrategies m @ filter is_verification_Strategy ss\<rparr>"
  by (induction ss arbitrary: m) simp_all

lemma ActiveCredentialsCounterStrategies_loop_filter:
  "ActiveCredentialsCounterStrategies_loop ss m =
     m\<lparr>activeCredentialsCounterStrategies :=
         activeCredentialsCounterStrategies m @ filter is_ActiveCredentialsCounter ss\<rparr>"
  by (induction ss arbitrary: m) simp_all

lemma selfServiceStrategies_fields:
  "m_c (snd (selfServiceStrategies x m)) = m_c m"
  "registrationStrategies (snd (selfServiceStrategies x m)) = registrationStrategies m"
  "loginStrategies (snd (selfServiceStrategies x m)) = loginStrategies m"
  "verificationStrategies (snd (selfServiceStrategies x m)) = verificationStrategies m"
  "activeCredentialsCounterStrategies (snd (selfServiceStrategies x m)) =
     activeCredentialsCounterStrategies m"
  by (simp_all add: selfServiceStrategies_def Let_def)

text \<open>
  Claim C2, as amended. With a configuration set, a strategy set that is built (its
  memoized slice is empty) is, for registration and for login, exactly the registered
  strategies that implement the capability and whose identifier the configuration
  enables, in their order; for verification it is exactly the registered strategies that
  implement \<^verbatim>\<open>verification.Strategy\<close>: the enablement is not consulted there.
\<close>

theorem strategy_sets_when_built:
  assumes "m_c m = Some c"
  shows "(registrationStrategies m = [] \<longrightarrow>
            returned (RegistrationStrategies x m) =
              Some (filter (\<lambda>s. is_registration_Strategy s \<and> SelfServiceStrategy_Enabled c (ID s))
                      (fst (selfServiceStrategies x m)))) \<and>
         (loginStrategies m = [] \<longrightarrow>
            returned (LoginStrategies x m) =
              Some (filter (\<lambda>s. is_login_Strategy s \<and> SelfServiceStrategy_Enabled c (ID s))
                      (fst (selfServiceStrategies x m)))) \<and>
         (verificationStrategies m = [] \<longrightarrow>
            fst (VerificationStrategies x m) =
              filter is_verification_Strategy (fst (selfServiceStrategies x m)))"
proof (intro conjI impI)
  assume e: "registrationStrategies m = []"
  obtain ss m1 where s: "selfServiceStrategies x m = (ss, m1)"
    by (cases "selfServiceStrategies x m")
  have "m_c m1 = Some c" "registrationStrategies m1 = []"
    using selfServiceStrategies_fields(1,2) [of x m] s assms e by simp_all
  then show "returned (RegistrationStrategies x m) =
      Some (filter (\<lambda>s. is_registration_Strategy s \<and> SelfServiceStrategy_Enabled c (ID s))
              (fst (selfServiceStrategies x m)))"
    using e s by (simp add: RegistrationStrategies_def RegistrationStrategies_loop_filter)
next
  assume e: "loginStrategies m = []"
  obtain ss m1 where s: "selfServiceStrategies x m = (ss, m1)"
    by (cases "selfServiceStrategies x m")
  have "m_c m1 = Some c" "loginStrategies m1 = []"
    using selfServiceStrategies_fields(1,3) [of x m] s assms e by simp_all
  then show "returned (LoginStrategies x m) =
      Some (filter (\<lambda>s. is_login_Strategy s \<and> SelfServiceStrategy_Enabled c (ID s))
              (fst (selfServiceStrategies x m)))"
    using e s by (simp add: LoginStrategies_def LoginStrategies_loop_filter)
next
  assume e: "verificationStrategies m = []"
  obtain ss m1 where s: "selfServiceStrategies x m = (ss, m1)"
    by (cases "selfServiceStrategies x m")
  have "verificationStrategies m1 = []"
    using selfServiceStrategies_fields(4) [of x m] s e by simp
  then show "fst (VerificationStrategies x m) =
      filter is_verification_Strategy (fst (selfServiceStrategies x m))"
    using e s by (simp add: VerificationStrategies_def VerificationStrategies_loop_filter Let_def)
qed

theorem strategy_sets_when_built_witness:
  "returned (RegistrationStrategies example_ext example_registry) =
     Some [password_NewStrategy example_ext] \<and>
   returned (LoginStrategies example_ext example_registry) =
     Some [password_NewStrategy example_ext] \<and>
   fst (VerificationStrategies example_ext example_registry) = [link_NewStrategy example_ext]"
  using strategy_sets_when_built [OF example_registry_fields(2), of example_ext]
  by (simp add: example_registry_fields selfServiceStrategies_def Let_def example_ext_fields
      example_config_fields)

text \<open>
  The claim as stated fails for verification: the link strategy implements
  \<^verbatim>\<open>verification.Strategy\<close>, the example configuration does not enable it, and
  \<open>VerificationStrategies\<close> returns it.
\<close>

theorem VerificationStrategies_returns_disabled_strategy:
  "fst (VerificationStrategies example_ext example_registry) = [link_NewStrategy example_ext] \<and>
   is_verification_Strategy (link_NewStrategy example_ext) \<and>
   \<not> SelfServiceStrategy_Enabled example_config (ID (link_NewStrategy example_ext)) \<and>
   m_c example_registry = Some example_config"
  by (simp add: VerificationStrategies_def selfServiceStrategies_def example_registry_fields
      example_config_fields example_ext_fields Let_def)

lemma RegistrationStrategies_result:
  "RegistrationStrategies x m = Return ss m1 \<Longrightarrow> registrationStrategies m1 = ss"
  by (auto simp: RegistrationStrategies_def split: if_splits prod.splits outcome.splits)

lemma LoginStrategies_result:
  "LoginStrategies x m = Return ss m1 \<Longrightarrow> loginStrategies m1 = ss"
  by (auto simp: LoginStrategies_def split: if_splits prod.splits outcome.splits)

lemma RegistrationStrategies_loop_keeps:
  "RegistrationStrategies_loop ss m = Return u m2 \<Longrightarrow>
     selfserviceStrategies m2 = selfserviceStrategies m"
  by (induction ss arbitrary: m) (auto split: if_splits option.splits)

lemma LoginStrategies_loop_keeps:
  "LoginStrategies_loop ss m = Return u m2 \<Longrightarrow>
     selfserviceStrategies m2 = selfserviceStrategies m"
  by (induction ss arbitrary: m) (auto split: if_splits option.splits)

lemma selfServiceStrategies_nonempty:
  "selfserviceStrategies (snd (selfServiceStrategies x m)) = fst (selfServiceStrategies x m)"
  "fst (selfServiceStrategies x m) \<noteq> []"
  by (simp_all add: selfServiceStrategies_def Let_def)

lemma RegistrationStrategies_empty_result:
  assumes "RegistrationStrategies x m = Return [] m1"
  shows "registrationStrategies m1 = [] \<and> selfserviceStrategies m1 \<noteq> []"
proof -
  have r: "registrationStrategies m1 = []"
    using assms by (rule RegistrationStrategies_result)
  have "registrationStrategies m = []"
    using assms by (auto simp: RegistrationStrategies_def split: if_splits)
  then obtain u where "RegistrationStrategies_loop (fst (selfServiceStrategies x m))
      (snd (selfServiceStrategies x m)) = Return u m1"
    using assms
    by (auto simp: RegistrationStrategies_def split: if_splits prod.splits outcome.splits)
  then have "selfserviceStrategies m1 = fst (selfServiceStrategies x m)"
    using RegistrationStrategies_loop_keeps selfServiceStrategies_nonempty(1) by metis
  then show ?thesis
    using r selfServiceStrategies_nonempty(2) by simp
qed

lemma LoginStrategies_empty_result:
  assumes "LoginStrategies x m = Return [] m1"
  shows "loginStrategies m1 = [] \<and> selfserviceStrategies m1 \<noteq> []"
proof -
  have r: "loginStrategies m1 = []"
    using assms by (rule LoginStrategies_result)
  have "loginStrategies m = []"
    using assms by (auto simp: LoginStrategies_def split: if_splits)
  then obtain u where "LoginStrategies_loop (fst (selfServiceStrategies x m))
      (snd (selfServiceStrategies x m)) = Return u m1"
    using assms
    by (auto simp: LoginStrategies_def split: if_splits prod.splits outcome.splits)
  then have "selfserviceStrategies m1 = fst (selfServiceStrategies x m)"
    using LoginStrategies_loop_keeps selfServiceStrategies_nonempty(1) by metis
  then show ?thesis
    using r selfServiceStrategies_nonempty(2) by simp
qed

text \<open>
  Claim C1, as amended. For registration and login the enablement is read from the
  configuration only by a call that finds the memoized set empty. A call that returns a
  non-empty set has memoized it: every later call returns the same set, whatever the
  configuration has become (\<open>c'\<close>), so disabling or enabling a mechanism after that
  has no effect on the set. A call that returns the empty set memoizes nothing, and the
  next call evaluates the configuration of that moment.
\<close>

theorem enablement_is_read_only_while_the_set_is_empty:
  "(RegistrationStrategies x m = Return ss m1 \<and> ss \<noteq> [] \<longrightarrow>
      RegistrationStrategies x' (m1\<lparr>m_c := c'\<rparr>) = Return ss (m1\<lparr>m_c := c'\<rparr>)) \<and>
   (LoginStrategies x m = Return ls m2 \<and> ls \<noteq> [] \<longrightarrow>
      LoginStrategies x' (m2\<lparr>m_c := c'\<rparr>) = Return ls (m2\<lparr>m_c := c'\<rparr>)) \<and>
   (RegistrationStrategies x m = Return [] m1 \<longrightarrow>
      returned (RegistrationStrategies x' (m1\<lparr>m_c := Some c\<rparr>)) =
        Some (filter (\<lambda>s. is_registration_Strategy s \<and> SelfServiceStrategy_Enabled c (ID s))
                (selfserviceStrategies m1))) \<and>
   (LoginStrategies x m = Return [] m2 \<longrightarrow>
      returned (LoginStrategies x' (m2\<lparr>m_c := Some c\<rparr>)) =
        Some (filter (\<lambda>s. is_login_Strategy s \<and> SelfServiceStrategy_Enabled c (ID s))
                (selfserviceStrategies m2)))"
proof (intro conjI impI)
  assume "RegistrationStrategies x m = Return ss m1 \<and> ss \<noteq> []"
  then have "registrationStrategies m1 = ss" "ss \<noteq> []"
    using RegistrationStrategies_result by auto
  then show "RegistrationStrategies x' (m1\<lparr>m_c := c'\<rparr>) = Return ss (m1\<lparr>m_c := c'\<rparr>)"
    by (simp add: RegistrationStrategies_def)
next
  assume "LoginStrategies x m = Return ls m2 \<and> ls \<noteq> []"
  then have "loginStrategies m2 = ls" "ls \<noteq> []"
    using LoginStrategies_result by auto
  then show "LoginStrategies x' (m2\<lparr>m_c := c'\<rparr>) = Return ls (m2\<lparr>m_c := c'\<rparr>)"
    by (simp add: LoginStrategies_def)
next
  assume "RegistrationStrategies x m = Return [] m1"
  then have e: "registrationStrategies m1 = []" "selfserviceStrategies m1 \<noteq> []"
    using RegistrationStrategies_empty_result by auto
  have "m_c (m1\<lparr>m_c := Some c\<rparr>) = Some c"
    by simp
  then show "returned (RegistrationStrategies x' (m1\<lparr>m_c := Some c\<rparr>)) =
      Some (filter (\<lambda>s. is_registration_Strategy s \<and> SelfServiceStrategy_Enabled c (ID s))
              (selfserviceStrategies m1))"
    using e
    by (simp add: RegistrationStrategies_def selfServiceStrategies_def
        RegistrationStrategies_loop_filter)
next
  assume "LoginStrategies x m = Return [] m2"
  then have e: "loginStrategies m2 = []" "selfserviceStrategies m2 \<noteq> []"
    using LoginStrategies_empty_result by auto
  have "m_c (m2\<lparr>m_c := Some c\<rparr>) = Some c"
    by simp
  then show "returned (LoginStrategies x' (m2\<lparr>m_c := Some c\<rparr>)) =
      Some (filter (\<lambda>s. is_login_Strategy s \<and> SelfServiceStrategy_Enabled c (ID s))
              (selfserviceStrategies m2))"
    using e
    by (simp add: LoginStrategies_def selfServiceStrategies_def LoginStrategies_loop_filter)
qed

lemma example_first_registration_call:
  "RegistrationStrategies example_ext example_registry =
     Return [password_NewStrategy example_ext] example_registry_after_registration"
  by (simp add: RegistrationStrategies_def selfServiceStrategies_def Let_def
      example_registry_fields example_ext_fields example_config_fields
      example_registry_after_registration_def)

theorem enablement_is_read_only_while_the_set_is_empty_witness:
  "RegistrationStrategies example_ext example_registry =
     Return [password_NewStrategy example_ext] example_registry_after_registration \<and>
   RegistrationStrategies example_ext
       (example_registry_after_registration\<lparr>m_c := Some disabled_config\<rparr>) =
     Return [password_NewStrategy example_ext]
       (example_registry_after_registration\<lparr>m_c := Some disabled_config\<rparr>)"
  using enablement_is_read_only_while_the_set_is_empty
    [of example_ext example_registry "[password_NewStrategy example_ext]"
        example_registry_after_registration example_ext "Some disabled_config"]
    example_first_registration_call
  by simp

text \<open>
  The claim as stated fails: after the first call has returned the password strategy,
  the configuration disables every mechanism, and the next call of
  \<open>RegistrationStrategies\<close> still returns the password strategy.
\<close>

theorem RegistrationStrategies_keeps_disabled_strategy:
  "registry_after (RegistrationStrategies example_ext example_registry) =
     Some example_registry_after_registration \<and>
   SelfServiceStrategy_Enabled disabled_config (ID (password_NewStrategy example_ext)) = False \<and>
   returned (RegistrationStrategies example_ext
       (example_registry_after_registration\<lparr>m_c := Some disabled_config\<rparr>)) =
     Some [password_NewStrategy example_ext]"
proof -
  let ?m = "example_registry_after_registration\<lparr>m_c := Some disabled_config\<rparr>"
  have "registrationStrategies ?m = [password_NewStrategy example_ext]"
    by (simp add: example_registry_after_registration_def)
  then have "RegistrationStrategies example_ext ?m =
      Return [password_NewStrategy example_ext] ?m"
    by (simp add: RegistrationStrategies_def)
  moreover have "SelfServiceStrategy_Enabled disabled_config
      (ID (password_NewStrategy example_ext)) = False"
    by (simp add: disabled_config_def)
  ultimately show ?thesis
    by (simp add: example_first_registration_call)
qed

subsection \<open>The bootstrap of the persister\<close>

text \<open>What a run of the operation that returns has done, whatever the registry was.\<close>

lemma Init_operation_returns:
  assumes "Init_operation x w k m = (evs, Return e m1)"
  shows "m_c m1 = m_c m"
    and "e = None \<Longrightarrow> \<exists>conn p. sql_NewPersister w k conn = Inr p \<and> persister m1 = Some p"
    and "e \<noteq> None \<Longrightarrow> persister m1 = persister m"
    and "count_list evs Call_NewConnection = 1"
  using assms
  by (auto simp: Init_operation_def Configuration_def Logger_def alloc_def errors_WithStack_def
      split: option.splits sum.splits prod.splits if_splits)

lemma Retry_loop_cases:
  assumes "Retry_loop operation k g m = (evs, r)"
  obtains (last) "operation k m = (evs, r)" "g = 0 \<or> (\<forall>err m0. r \<noteq> Return (Some err) m0)"
  | (again) evs0 err m0 g' evs' where "operation k m = (evs0, Return (Some err) m0)"
      "g = Suc g'" "Retry_loop operation (Suc k) g' m0 = (evs', r)" "evs = evs0 @ evs'"
proof (cases g)
  case 0
  then show ?thesis
    using assms last by simp
next
  case (Suc g')
  obtain evs0 r0 where op: "operation k m = (evs0, r0)"
    by (cases "operation k m")
  show ?thesis
  proof (cases "\<exists>err m0. r0 = Return (Some err) m0")
    case True
    then obtain err m0 where r0: "r0 = Return (Some err) m0"
      by blast
    obtain evs' r' where rec: "Retry_loop operation (Suc k) g' m0 = (evs', r')"
      by (cases "Retry_loop operation (Suc k) g' m0")
    have "evs = evs0 @ evs'" "r = r'"
      using assms Suc op r0 rec by simp_all
    then show ?thesis
      using again op r0 Suc rec by simp
  next
    case False
    then have "operation k m = (evs, r)" "r = r0"
      using assms Suc op by (cases r0; auto split: option.splits)+
    then show ?thesis
      using last False by simp
  qed
qed

lemma Retry_loop_returns:
  "Retry_loop (Init_operation x w) k g m = (evs, Return e m1) \<Longrightarrow> persister m = None \<Longrightarrow>
     m_c m1 = m_c m \<and>
     (case e of
        None \<Rightarrow>
          (\<exists>k' conn p. sql_NewPersister w k' conn = Inr p \<and> persister m1 = Some p) \<and>
          count_list evs Call_NewConnection \<le> Suc g
      | Some err \<Rightarrow> persister m1 = None \<and> count_list evs Call_NewConnection = Suc g)"
proof (induction g arbitrary: k m evs)
  case 0
  then have op: "Init_operation x w k m = (evs, Return e m1)"
    by simp
  show ?case
  proof (cases e)
    case None
    then show ?thesis
      using Init_operation_returns(1,2,4) [OF op] by auto
  next
    case (Some err)
    then show ?thesis
      using Init_operation_returns(1,3,4) [OF op] 0(2) by auto
  qed
next
  case (Suc g)
  from Suc.prems(1) show ?case
  proof (cases rule: Retry_loop_cases)
    case last
    show ?thesis
    proof (cases e)
      case None
      then show ?thesis
        using Init_operation_returns(1,2,4) [OF last(1)] by auto
    next
      case (Some err)
      then show ?thesis
        using last(2) by simp
    qed
  next
    case (again evs0 err m0 g' evs')
    then have g: "g' = g"
      by simp
    have p0: "persister m0 = None" and c0: "m_c m0 = m_c m"
      using Init_operation_returns(1,3) [OF again(1)] Suc.prems(2) by simp_all
    from Suc.IH [OF again(3) [unfolded g] p0]
    have ih: "m_c m1 = m_c m0"
      "case e of
        None \<Rightarrow>
          (\<exists>k' conn p. sql_NewPersister w k' conn = Inr p \<and> persister m1 = Some p) \<and>
          count_list evs' Call_NewConnection \<le> Suc g
      | Some err \<Rightarrow> persister m1 = None \<and> count_list evs' Call_NewConnection = Suc g"
      by simp_all
    have n: "count_list evs0 Call_NewConnection = 1"
      by (rule Init_operation_returns(4) [OF again(1)])
    show ?thesis
      using ih c0 n again(4) by (cases e) auto
  qed
qed

lemma MigrateUp_called_iff:
  assumes "m_c m = Some c"
  shows "Call_MigrateUp \<in> set (fst (Init_operation x w k m)) \<longleftrightarrow>
     (DSN c = InMemoryDSN x \<and>
      (\<exists>d conn p.
        Init_ConnectionDetails x (m_l m) (ContextualizeConfig x c) = Inr d \<and>
        pop_NewConnection w k d = Inr conn \<and>
        Connection_Open w k conn = None \<and>
        sql_NewPersister w k conn = Inr p \<and>
        Persister_Ping w k p = None))"
  using assms
  by (auto simp: Init_operation_def Configuration_def Logger_def alloc_def
      errors_WithStack_def split: option.splits sum.splits prod.splits)

lemma MigrateUp_called_on_nil:
  assumes "Init_operation x w k m = (evs, Return None m1)" and "m_c m = Some c"
    and "DSN c = InMemoryDSN x"
  shows "Call_MigrateUp \<in> set evs"
  using assms
  by (auto simp: Init_operation_def Configuration_def Logger_def alloc_def
      errors_WithStack_def split: option.splits sum.splits prod.splits if_splits)

lemma Retry_loop_no_MigrateUp:
  "m_c m = Some c \<Longrightarrow> DSN c \<noteq> InMemoryDSN x \<Longrightarrow>
     Retry_loop (Init_operation x w) k g m = (evs, r) \<Longrightarrow> Call_MigrateUp \<notin> set evs"
proof (induction g arbitrary: k m evs)
  case 0
  then have "fst (Init_operation x w k m) = evs"
    by simp
  then show ?case
    using MigrateUp_called_iff [OF 0(1), of x w k] 0(2) by auto
next
  case (Suc g)
  from Suc.prems(3) show ?case
  proof (cases rule: Retry_loop_cases)
    case last
    then have "fst (Init_operation x w k m) = evs"
      by simp
    then show ?thesis
      using MigrateUp_called_iff [OF Suc.prems(1), of x w k] Suc.prems(2) by auto
  next
    case (again evs0 err m0 g' evs')
    have "fst (Init_operation x w k m) = evs0"
      using again(1) by simp
    then have a: "Call_MigrateUp \<notin> set evs0"
      using MigrateUp_called_iff [OF Suc.prems(1), of x w k] Suc.prems(2) by auto
    have "m_c m0 = Some c"
      using Init_operation_returns(1) [OF again(1)] Suc.prems(1) by simp
    then have "Call_MigrateUp \<notin> set evs'"
      using Suc.IH [of m0 "Suc k" evs'] Suc.prems(2) again(2,3) by simp
    then show ?thesis
      using a again(4) by simp
  qed
qed

lemma Retry_loop_MigrateUp_on_nil:
  "m_c m = Some c \<Longrightarrow> DSN c = InMemoryDSN x \<Longrightarrow>
     Retry_loop (Init_operation x w) k g m = (evs, Return None m1) \<Longrightarrow>
     Call_MigrateUp \<in> set evs"
proof (induction g arbitrary: k m evs)
  case 0
  then show ?case
    using MigrateUp_called_on_nil by simp
next
  case (Suc g)
  from Suc.prems(3) show ?case
  proof (cases rule: Retry_loop_cases)
    case last
    then show ?thesis
      using MigrateUp_called_on_nil Suc.prems(1,2) by blast
  next
    case (again evs0 err m0 g' evs')
    have "m_c m0 = Some c"
      using Init_operation_returns(1) [OF again(1)] Suc.prems(1) by simp
    then have "Call_MigrateUp \<in> set evs'"
      using Suc.IH [of m0 "Suc k" evs'] Suc.prems(2) again(2,3) by simp
    then show ?thesis
      using again(4) by simp
  qed
qed

lemma Init_unfold:
  assumes "persister m = None"
  shows "Init x w m =
     (case Retry_loop (Init_operation x w) 0
             (NextBackOff_grants w \<lparr>MaxElapsedTime = 5 * 60 * 1000000000\<rparr>) m of
        (evs, Return err m1) \<Rightarrow> (evs, Return (errors_WithStack err) m1)
      | (evs, r) \<Rightarrow> (evs, r))"
  using assms
  by (cases "NewExponentialBackOff x") (simp add: Init_def backoff_Retry_def Minute_def)

lemma Init_with_persister:
  assumes "persister m \<noteq> None"
  shows "Init x w m = ([], Panic ''RegistryDefault.Init() must not be called more than once.'')"
  using assms by (simp add: Init_def)

lemma Init_returns:
  assumes "Init x w m = (evs, Return e m1)"
  shows "persister m = None"
    and "\<exists>e0. e = errors_WithStack e0 \<and>
           Retry_loop (Init_operation x w) 0
             (NextBackOff_grants w \<lparr>MaxElapsedTime = 5 * 60 * 1000000000\<rparr>) m =
           (evs, Return e0 m1)"
proof -
  show p: "persister m = None"
    using assms Init_with_persister [of m x w] by (cases "persister m") simp_all
  let ?G = "NextBackOff_grants w \<lparr>MaxElapsedTime = 5 * 60 * 1000000000\<rparr>"
  obtain evs0 r where r: "Retry_loop (Init_operation x w) 0 ?G m = (evs0, r)"
    by (cases "Retry_loop (Init_operation x w) 0 ?G m")
  then show "\<exists>e0. e = errors_WithStack e0 \<and>
      Retry_loop (Init_operation x w) 0 ?G m = (evs, Return e0 m1)"
    using assms by (cases r) (auto simp: Init_unfold [OF p])
qed

lemma Init_returns_nil:
  assumes "Init x w m = (evs, Return None m1)"
  shows "persister m = None \<and> persister m1 \<noteq> None \<and>
         (\<exists>k conn p. sql_NewPersister w k conn = Inr p \<and> persister m1 = Some p)"
proof -
  from Init_returns [OF assms] obtain e0 where p: "persister m = None"
    and e: "None = errors_WithStack e0"
    and r: "Retry_loop (Init_operation x w) 0
        (NextBackOff_grants w \<lparr>MaxElapsedTime = 5 * 60 * 1000000000\<rparr>) m = (evs, Return e0 m1)"
    by blast
  have "e0 = None"
    using e by (cases e0) (simp_all add: errors_WithStack_def)
  then show ?thesis
    using Retry_loop_returns [OF r p] p by auto
qed

lemma Init_returns_error:
  assumes "Init x w m = (evs, Return (Some err) m1)"
  shows "persister m = None \<and> persister m1 = None"
proof -
  from Init_returns [OF assms] obtain e0 where p: "persister m = None"
    and e: "Some err = errors_WithStack e0"
    and r: "Retry_loop (Init_operation x w) 0
        (NextBackOff_grants w \<lparr>MaxElapsedTime = 5 * 60 * 1000000000\<rparr>) m = (evs, Return e0 m1)"
    by blast
  have "e0 \<noteq> None"
    using e by (cases e0) (simp_all add: errors_WithStack_def)
  then show ?thesis
    using Retry_loop_returns [OF r p] p by auto
qed



lemma Retry_loop_without_configuration:
  assumes "m_c m = None"
  shows "Retry_loop (Init_operation x w) k g m = ([], Panic ''configuration not set'')"
  using assms by (cases g) (simp_all add: Init_operation_def Configuration_def)

lemma Init_without_configuration:
  assumes "m_c m = None" and "persister m = None"
  shows "Init x w m = ([], Panic ''configuration not set'')"
  using assms Retry_loop_without_configuration [OF assms(1)]
  by (simp add: Init_def backoff_Retry_def Let_def)











lemma example_world_fields:
  "pop_NewConnection example_world k d =
     (if k = 0 then Inl (Error ''connection refused'') else Inr (Connection d))"
  "Connection_Open example_world k conn = None"
  "sql_NewPersister example_world k conn = Inr (PersisterAt k)"
  "Persister_Ping example_world k p = (if k = 1 then Some (Error ''bad connection'') else None)"
  "Persister_MigrateUp example_world k p = None"
  "NextBackOff_grants example_world b = 3"
  by (simp_all add: example_world_def)

lemma example_registry_with_logger_eq:
  "example_registry_with_logger = example_registry\<lparr>m_l := Some 0, next_ptr := 1\<rparr>"
  by (simp add: example_registry_with_logger_def Logger_def alloc_def example_registry_fields)

lemma example_registry_with_logger_fields:
  "m_l example_registry_with_logger = Some 0"
  "m_c example_registry_with_logger = Some example_config"
  "persister example_registry_with_logger = None"
  "next_ptr example_registry_with_logger = 1"
  by (simp_all add: example_registry_with_logger_eq example_registry_fields)

lemma example_ConnectionDetails:
  "Init_ConnectionDetails example_ext (Some l) example_config =
     Inr \<lparr>URL = ''sqlite://:memory:?_fk=true'', IdlePool = 0, ConnMaxLifetime = 0, Pool = 0\<rparr>"
  "Init_ConnectionDetails example_ext None example_config = Inl nil_dereference"
  by (simp_all add: Init_ConnectionDetails_def example_ext_fields example_config_fields)




subsection \<open>Calls other than Init leave the persister alone\<close>

lemma RegistrationStrategies_loop_shape:
  "RegistrationStrategies_loop ss m = Return u m' \<Longrightarrow>
     \<exists>app. m' = m\<lparr>registrationStrategies := registrationStrategies m @ app\<rparr>"
proof (induction ss arbitrary: m)
  case Nil
  then have "m' = m\<lparr>registrationStrategies := registrationStrategies m @ []\<rparr>"
    by simp
  then show ?case ..
next
  case (Cons s ss)
  show ?case
  proof (cases "is_registration_Strategy s \<and>
      (\<exists>c. m_c m = Some c \<and> SelfServiceStrategy_Enabled c (ID s))")
    case True
    then have "RegistrationStrategies_loop ss
        (m\<lparr>registrationStrategies := registrationStrategies m @ [s]\<rparr>) = Return u m'"
      using Cons.prems by auto
    from Cons.IH [OF this] obtain app where
      "m' = m\<lparr>registrationStrategies := registrationStrategies m @ [s]\<rparr>
              \<lparr>registrationStrategies := registrationStrategies
                 (m\<lparr>registrationStrategies := registrationStrategies m @ [s]\<rparr>) @ app\<rparr>"
      by blast
    then have "m' = m\<lparr>registrationStrategies := registrationStrategies m @ (s # app)\<rparr>"
      by simp
    then show ?thesis ..
  next
    case False
    then have "RegistrationStrategies_loop ss m = Return u m'"
      using Cons.prems by (auto split: if_splits option.splits)
    from Cons.IH [OF this] show ?thesis .
  qed
qed

lemma LoginStrategies_loop_shape:
  "LoginStrategies_loop ss m = Return u m' \<Longrightarrow>
     \<exists>app. m' = m\<lparr>loginStrategies := loginStrategies m @ app\<rparr>"
proof (induction ss arbitrary: m)
  case Nil
  then have "m' = m\<lparr>loginStrategies := loginStrategies m @ []\<rparr>"
    by simp
  then show ?case ..
next
  case (Cons s ss)
  show ?case
  proof (cases "is_login_Strategy s \<and>
      (\<exists>c. m_c m = Some c \<and> SelfServiceStrategy_Enabled c (ID s))")
    case True
    then have "LoginStrategies_loop ss
        (m\<lparr>loginStrategies := loginStrategies m @ [s]\<rparr>) = Return u m'"
      using Cons.prems by auto
    from Cons.IH [OF this] obtain app where
      "m' = m\<lparr>loginStrategies := loginStrategies m @ [s]\<rparr>
              \<lparr>loginStrategies := loginStrategies
                 (m\<lparr>loginStrategies := loginStrategies m @ [s]\<rparr>) @ app\<rparr>"
      by blast
    then have "m' = m\<lparr>loginStrategies := loginStrategies m @ (s # app)\<rparr>"
      by simp
    then show ?thesis ..
  next
    case False
    then have "LoginStrategies_loop ss m = Return u m'"
      using Cons.prems by (auto split: if_splits option.splits)
    from Cons.IH [OF this] show ?thesis .
  qed
qed

lemma RegistrationStrategies_shape:
  assumes "RegistrationStrategies x m = Return ss m1"
  shows "\<exists>a b. m1 = m\<lparr>selfserviceStrategies := a, registrationStrategies := b\<rparr>"
proof (cases "length (registrationStrategies m) = 0")
  case False
  then have "m1 = m\<lparr>selfserviceStrategies := selfserviceStrategies m,
      registrationStrategies := registrationStrategies m\<rparr>"
    using assms by (simp add: RegistrationStrategies_def)
  then show ?thesis by blast
next
  case True
  then obtain u where "RegistrationStrategies_loop (fst (selfServiceStrategies x m))
      (snd (selfServiceStrategies x m)) = Return u m1"
    using assms
    by (auto simp: RegistrationStrategies_def split: prod.splits outcome.splits)
  from RegistrationStrategies_loop_shape [OF this] obtain app where
    "m1 = (snd (selfServiceStrategies x m))\<lparr>registrationStrategies :=
       registrationStrategies (snd (selfServiceStrategies x m)) @ app\<rparr>"
    by blast
  then have "m1 = m\<lparr>selfserviceStrategies := fst (selfServiceStrategies x m),
      registrationStrategies := registrationStrategies m @ app\<rparr>"
    by (simp add: selfServiceStrategies_def Let_def split: if_splits)
  then show ?thesis by blast
qed

lemma LoginStrategies_shape:
  assumes "LoginStrategies x m = Return ss m1"
  shows "\<exists>a b. m1 = m\<lparr>selfserviceStrategies := a, loginStrategies := b\<rparr>"
proof (cases "length (loginStrategies m) = 0")
  case False
  then have "m1 = m\<lparr>selfserviceStrategies := selfserviceStrategies m,
      loginStrategies := loginStrategies m\<rparr>"
    using assms by (simp add: LoginStrategies_def)
  then show ?thesis by blast
next
  case True
  then obtain u where "LoginStrategies_loop (fst (selfServiceStrategies x m))
      (snd (selfServiceStrategies x m)) = Return u m1"
    using assms
    by (auto simp: LoginStrategies_def split: prod.splits outcome.splits)
  from LoginStrategies_loop_shape [OF this] obtain app where
    "m1 = (snd (selfServiceStrategies x m))\<lparr>loginStrategies :=
       loginStrategies (snd (selfServiceStrategies x m)) @ app\<rparr>"
    by blast
  then have "m1 = m\<lparr>selfserviceStrategies := fst (selfServiceStrategies x m),
      loginStrategies := loginStrategies m @ app\<rparr>"
    by (simp add: selfServiceStrategies_def Let_def split: if_splits)
  then show ?thesis by blast
qed

lemma getters_keep_persister:
  "persister (snd (Logger m)) = persister m"
  "persister (snd (Audit m)) = persister m"
  "persister (snd (Writer m)) = persister m"
  "persister (snd (LogoutHandler m)) = persister m"
  "persister (snd (HealthHandler m)) = persister m"
  "persister (snd (MetricsHandler m)) = persister m"
  "persister (snd (IdentityValidator m)) = persister m"
  "persister (snd (IdentityHandler m)) = persister m"
  "persister (snd (SchemaHandler m)) = persister m"
  "persister (snd (SessionHandler m)) = persister m"
  "persister (snd (Hasher m)) = persister m"
  "persister (snd (PasswordValidator m)) = persister m"
  "persister (snd (SelfServiceErrorHandler m)) = persister m"
  "persister (snd (SessionManager m)) = persister m"
  "persister (snd (SelfServiceErrorManager m)) = persister m"
  "persister (snd (Courier m)) = persister m"
  "persister (snd (ContinuityManager m)) = persister m"
  "persister (snd (IdentityManager m)) = persister m"
  "persister (snd (PrometheusManager m)) = persister m"
  "persister (snd (selfServiceStrategies x m)) = persister m"
  "persister (snd (VerificationStrategies x m)) = persister m"
  "persister (snd (ActiveCredentialsCounterStrategies x m)) = persister m"
  by (simp_all add: Logger_def Audit_def Writer_def LogoutHandler_def HealthHandler_def
      MetricsHandler_def IdentityValidator_def IdentityHandler_def SchemaHandler_def
      SessionHandler_def Hasher_def PasswordValidator_def SelfServiceErrorHandler_def
      SessionManager_def SelfServiceErrorManager_def Courier_def ContinuityManager_def
      IdentityManager_def PrometheusManager_def selfServiceStrategies_def
      VerificationStrategies_def ActiveCredentialsCounterStrategies_def
      VerificationStrategies_loop_filter ActiveCredentialsCounterStrategies_loop_filter
      alloc_def Let_def split: option.split prod.split)

lemma outcome_getters_keep_persister:
  "Tracer x m = Return t m1 \<Longrightarrow> persister m1 = persister m"
  "CookieManager x m = Return cs m2 \<Longrightarrow> persister m2 = persister m"
  "ContinuityCookieManager x m = Return cs' m3 \<Longrightarrow> persister m3 = persister m"
  by (auto simp: Tracer_def CookieManager_def ContinuityCookieManager_def Configuration_def
      alloc_def Let_def split: option.splits sum.splits)

lemma call_keeps_persister:
  assumes "call m m'"
  shows "persister m' = persister m"
  using assms
proof cases
  case (call_RegistrationStrategies x ss)
  from RegistrationStrategies_shape [OF this] show ?thesis by auto
next
  case (call_LoginStrategies x ss)
  from LoginStrategies_shape [OF this] show ?thesis by auto
next
  case (call_Init_error x w evs err)
  from Init_returns_error [OF this] show ?thesis by simp
qed (simp_all add: getters_keep_persister outcome_getters_keep_persister
      WithConfig_def WithLogger_def)

lemma calls_keep_persister:
  assumes "call\<^sup>*\<^sup>* m m'"
  shows "persister m' = persister m"
  using assms by (induction rule: rtranclp_induct) (simp_all add: call_keeps_persister)

lemma example_Init:
  "snd (Init example_ext example_world example_registry_with_logger) =
     Return None example_registry_after_Init"
  by (simp add: Init_def backoff_Retry_def numeral_3_eq_3 Init_operation_def Configuration_def
      Logger_def errors_WithStack_def example_registry_with_logger_fields example_ext_fields
      example_config_fields example_world_fields example_registry_after_Init_def
      example_ConnectionDetails)

subsection \<open>Init and the persister\<close>

text \<open>
  Claim C3. A call of Init on a registry whose persister is set panics with
  "RegistryDefault.Init() must not be called more than once." and does nothing else: it
  returns no error and opens no connection. So once a call of Init has returned nil,
  every later call of Init panics, whatever functions of the registry were called in
  between and whatever the database would answer.
\<close>

theorem second_Init_panics:
  "(persister m \<noteq> None \<longrightarrow>
      Init x w m = ([], Panic ''RegistryDefault.Init() must not be called more than once.'')) \<and>
   (Init x w m = (evs, Return None m1) \<and> call\<^sup>*\<^sup>* m1 m2 \<longrightarrow>
      Init x' w' m2 = ([], Panic ''RegistryDefault.Init() must not be called more than once.''))"
proof (intro conjI impI)
  assume "persister m \<noteq> None"
  then show "Init x w m =
      ([], Panic ''RegistryDefault.Init() must not be called more than once.'')"
    by (rule Init_with_persister)
next
  assume a: "Init x w m = (evs, Return None m1) \<and> call\<^sup>*\<^sup>* m1 m2"
  then have "persister m1 \<noteq> None"
    using Init_returns_nil by blast
  moreover have "persister m2 = persister m1"
    using a calls_keep_persister by blast
  ultimately have "persister m2 \<noteq> None"
    by simp
  then show "Init x' w' m2 =
      ([], Panic ''RegistryDefault.Init() must not be called more than once.'')"
    by (rule Init_with_persister)
qed

theorem second_Init_panics_witness:
  "snd (Init example_ext example_world example_registry_with_logger) =
     Return None example_registry_after_Init \<and>
   Init example_ext example_world example_registry_after_Init =
     ([], Panic ''RegistryDefault.Init() must not be called more than once.'')"
proof -
  have "Init example_ext example_world example_registry_with_logger =
      (fst (Init example_ext example_world example_registry_with_logger),
       Return None example_registry_after_Init)"
    using example_Init by (simp add: prod_eq_iff)
  moreover have "call\<^sup>*\<^sup>* example_registry_after_Init example_registry_after_Init"
    by simp
  ultimately show ?thesis
    using second_Init_panics
      [of example_registry_with_logger example_ext example_world
          "fst (Init example_ext example_world example_registry_with_logger)"
          example_registry_after_Init example_registry_after_Init example_ext example_world]
      example_Init
    by blast
qed

text \<open>
  Claim C5. Init calls \<^verbatim>\<open>MigrateUp\<close> only for the in-memory DSN: with any other
  configured DSN no run of the bootstrap calls it. With the in-memory DSN every run
  that gets past the ping calls it (a run that fails earlier ends before the
  migration), so an Init that returns nil has run the migration exactly when the
  configured DSN is the in-memory one.
\<close>

theorem MigrateUp_only_for_the_in_memory_DSN:
  assumes "m_c m = Some c"
  shows "(DSN c \<noteq> InMemoryDSN x \<longrightarrow> Call_MigrateUp \<notin> set (fst (Init x w m))) \<and>
         (\<forall>m1. snd (Init x w m) = Return None m1 \<longrightarrow>
            (Call_MigrateUp \<in> set (fst (Init x w m)) \<longleftrightarrow> DSN c = InMemoryDSN x)) \<and>
         (\<forall>k. Call_MigrateUp \<in> set (fst (Init_operation x w k m)) \<longleftrightarrow>
            (DSN c = InMemoryDSN x \<and>
             (\<exists>d conn p.
                Init_ConnectionDetails x (m_l m) (ContextualizeConfig x c) = Inr d \<and>
                pop_NewConnection w k d = Inr conn \<and>
                Connection_Open w k conn = None \<and>
                sql_NewPersister w k conn = Inr p \<and>
                Persister_Ping w k p = None)))"
proof -
  let ?G = "NextBackOff_grants w \<lparr>MaxElapsedTime = 5 * 60 * 1000000000\<rparr>"
  have per_run: "\<And>k. Call_MigrateUp \<in> set (fst (Init_operation x w k m)) \<longleftrightarrow>
      (DSN c = InMemoryDSN x \<and>
       (\<exists>d conn p.
          Init_ConnectionDetails x (m_l m) (ContextualizeConfig x c) = Inr d \<and>
          pop_NewConnection w k d = Inr conn \<and>
          Connection_Open w k conn = None \<and>
          sql_NewPersister w k conn = Inr p \<and>
          Persister_Ping w k p = None))"
    by (rule MigrateUp_called_iff [OF assms])
  have none: "Call_MigrateUp \<notin> set (fst (Init x w m))" if d: "DSN c \<noteq> InMemoryDSN x"
  proof (cases "persister m")
    case (Some p)
    then show ?thesis
      by (simp add: Init_def)
  next
    case None
    obtain evs r where r: "Retry_loop (Init_operation x w) 0 ?G m = (evs, r)"
      by (cases "Retry_loop (Init_operation x w) 0 ?G m")
    have "Call_MigrateUp \<notin> set evs"
      using Retry_loop_no_MigrateUp [OF assms d r] .
    moreover have "fst (Init x w m) = evs"
      using r by (cases r) (simp_all add: Init_unfold [OF None])
    ultimately show ?thesis
      by simp
  qed
  have some: "Call_MigrateUp \<in> set (fst (Init x w m))"
    if r: "snd (Init x w m) = Return None m1" and d: "DSN c = InMemoryDSN x" for m1
  proof -
    have i: "Init x w m = (fst (Init x w m), Return None m1)"
      using r by (simp add: prod_eq_iff)
    from Init_returns(2) [OF i] obtain e0 where e: "None = errors_WithStack e0"
      and l: "Retry_loop (Init_operation x w) 0 ?G m = (fst (Init x w m), Return e0 m1)"
      by blast
    have "e0 = None"
      using e by (cases e0) (simp_all add: errors_WithStack_def)
    then show ?thesis
      using Retry_loop_MigrateUp_on_nil [OF assms d] l by blast
  qed
  show ?thesis
    using per_run none some by blast
qed

theorem MigrateUp_only_for_the_in_memory_DSN_witness:
  "Call_MigrateUp \<in> set (fst (Init example_ext example_world example_registry_with_logger)) \<and>
   Call_MigrateUp \<notin> set (fst (Init example_ext example_world
      (example_registry_with_logger\<lparr>m_c := Some postgres_config\<rparr>)))"
proof -
  have "DSN example_config = InMemoryDSN example_ext"
    by (simp add: example_config_fields example_ext_fields)
  then have a: "Call_MigrateUp \<in>
      set (fst (Init example_ext example_world example_registry_with_logger))"
    using MigrateUp_only_for_the_in_memory_DSN
      [OF example_registry_with_logger_fields(2), of example_ext example_world] example_Init
    by blast
  have c: "m_c (example_registry_with_logger\<lparr>m_c := Some postgres_config\<rparr>) =
      Some postgres_config"
    by simp
  have "DSN postgres_config \<noteq> InMemoryDSN example_ext"
    by (simp add: postgres_config_def example_ext_fields)
  then have "Call_MigrateUp \<notin> set (fst (Init example_ext example_world
      (example_registry_with_logger\<lparr>m_c := Some postgres_config\<rparr>)))"
    using MigrateUp_only_for_the_in_memory_DSN [OF c, of example_ext example_world]
    by blast
  with a show ?thesis
    by simp
qed

text \<open>
  Claim C10. In every state that the new registry reaches by calls other than an Init
  that returns nil, the persister field is nil: \<open>Persister\<close> and the twelve getters
  that return the field under another interface return nil, and \<open>Ping\<close> calls a
  method on the nil interface, a panic. After Init has returned nil, in every state
  reached from there, all of these getters return the one persister that
  \<^verbatim>\<open>sql.NewPersister\<close> built in Init's successful run, and \<open>Ping\<close> is that
  persister's \<^verbatim>\<open>Ping\<close>.
\<close>

theorem persister_is_nil_until_Init_returns_nil:
  "(call\<^sup>*\<^sup>* NewRegistryDefault m \<longrightarrow>
      persister m = None \<and> Persister m = None \<and> ContinuityPersister m = None \<and>
      IdentityPool m = None \<and> PrivilegedIdentityPool m = None \<and>
      RegistrationFlowPersister m = None \<and> RecoveryFlowPersister m = None \<and>
      LoginFlowPersister m = None \<and> SettingsFlowPersister m = None \<and>
      SelfServiceErrorPersister m = None \<and> SessionPersister m = None \<and>
      CourierPersister m = None \<and> RecoveryTokenPersister m = None \<and>
      VerificationTokenPersister m = None \<and> Ping w t m = Inl nil_dereference) \<and>
   (Init x w m = (evs, Return None m1) \<and> call\<^sup>*\<^sup>* m1 m2 \<longrightarrow>
      (\<exists>p k conn. sql_NewPersister w k conn = Inr p \<and> persister m1 = Some p \<and>
         persister m2 = Some p \<and> Persister m2 = Some p \<and> ContinuityPersister m2 = Some p \<and>
         IdentityPool m2 = Some p \<and> PrivilegedIdentityPool m2 = Some p \<and>
         RegistrationFlowPersister m2 = Some p \<and> RecoveryFlowPersister m2 = Some p \<and>
         LoginFlowPersister m2 = Some p \<and> SettingsFlowPersister m2 = Some p \<and>
         SelfServiceErrorPersister m2 = Some p \<and> SessionPersister m2 = Some p \<and>
         CourierPersister m2 = Some p \<and> RecoveryTokenPersister m2 = Some p \<and>
         VerificationTokenPersister m2 = Some p \<and>
         Ping w' t m2 = Inr (Persister_Ping w' t p)))"
proof (rule conjI; rule impI)
  assume "call\<^sup>*\<^sup>* NewRegistryDefault m"
  then have "persister m = persister NewRegistryDefault"
    by (rule calls_keep_persister)
  then have "persister m = None"
    by (simp add: NewRegistryDefault_def)
  then show "persister m = None \<and> Persister m = None \<and> ContinuityPersister m = None \<and>
      IdentityPool m = None \<and> PrivilegedIdentityPool m = None \<and>
      RegistrationFlowPersister m = None \<and> RecoveryFlowPersister m = None \<and>
      LoginFlowPersister m = None \<and> SettingsFlowPersister m = None \<and>
      SelfServiceErrorPersister m = None \<and> SessionPersister m = None \<and>
      CourierPersister m = None \<and> RecoveryTokenPersister m = None \<and>
      VerificationTokenPersister m = None \<and> Ping w t m = Inl nil_dereference"
    by (simp add: Persister_def ContinuityPersister_def IdentityPool_def
        PrivilegedIdentityPool_def RegistrationFlowPersister_def RecoveryFlowPersister_def
        LoginFlowPersister_def SettingsFlowPersister_def SelfServiceErrorPersister_def
        SessionPersister_def CourierPersister_def RecoveryTokenPersister_def
        VerificationTokenPersister_def Ping_def)
next
  assume a: "Init x w m = (evs, Return None m1) \<and> call\<^sup>*\<^sup>* m1 m2"
  then obtain k conn p where p: "sql_NewPersister w k conn = Inr p" "persister m1 = Some p"
    using Init_returns_nil by blast
  have "persister m2 = persister m1"
    using a calls_keep_persister by blast
  then have "persister m2 = Some p"
    using p(2) by simp
  then have "persister m2 = Some p \<and> Persister m2 = Some p \<and> ContinuityPersister m2 = Some p \<and>
         IdentityPool m2 = Some p \<and> PrivilegedIdentityPool m2 = Some p \<and>
         RegistrationFlowPersister m2 = Some p \<and> RecoveryFlowPersister m2 = Some p \<and>
         LoginFlowPersister m2 = Some p \<and> SettingsFlowPersister m2 = Some p \<and>
         SelfServiceErrorPersister m2 = Some p \<and> SessionPersister m2 = Some p \<and>
         CourierPersister m2 = Some p \<and> RecoveryTokenPersister m2 = Some p \<and>
         VerificationTokenPersister m2 = Some p \<and>
         Ping w' t m2 = Inr (Persister_Ping w' t p)"
    by (simp add: Persister_def ContinuityPersister_def IdentityPool_def
        PrivilegedIdentityPool_def RegistrationFlowPersister_def RecoveryFlowPersister_def
        LoginFlowPersister_def SettingsFlowPersister_def SelfServiceErrorPersister_def
        SessionPersister_def CourierPersister_def RecoveryTokenPersister_def
        VerificationTokenPersister_def Ping_def)
  then show "\<exists>p k conn. sql_NewPersister w k conn = Inr p \<and> persister m1 = Some p \<and>
         persister m2 = Some p \<and> Persister m2 = Some p \<and> ContinuityPersister m2 = Some p \<and>
         IdentityPool m2 = Some p \<and> PrivilegedIdentityPool m2 = Some p \<and>
         RegistrationFlowPersister m2 = Some p \<and> RecoveryFlowPersister m2 = Some p \<and>
         LoginFlowPersister m2 = Some p \<and> SettingsFlowPersister m2 = Some p \<and>
         SelfServiceErrorPersister m2 = Some p \<and> SessionPersister m2 = Some p \<and>
         CourierPersister m2 = Some p \<and> RecoveryTokenPersister m2 = Some p \<and>
         VerificationTokenPersister m2 = Some p \<and>
         Ping w' t m2 = Inr (Persister_Ping w' t p)"
    using p by blast
qed

theorem persister_is_nil_until_Init_returns_nil_witness:
  "Persister example_registry_with_logger = None \<and> SessionPersister example_registry_with_logger = None \<and>
   Ping example_world 0 example_registry_with_logger = Inl nil_dereference \<and>
   Persister example_registry_after_Init = Some (PersisterAt 2) \<and>
   RegistrationFlowPersister example_registry_after_Init = Some (PersisterAt 2) \<and>
   Ping example_world 7 example_registry_after_Init = Inr None"
proof -
  have "call NewRegistryDefault example_registry"
    unfolding example_registry_def by (rule call_WithConfig)
  moreover have "call example_registry example_registry_with_logger"
    unfolding example_registry_with_logger_def by (rule call_Logger)
  ultimately have r: "call\<^sup>*\<^sup>* NewRegistryDefault example_registry_with_logger"
    by (rule converse_rtranclp_into_rtranclp [OF _ r_into_rtranclp])
  have i: "Init example_ext example_world example_registry_with_logger =
      (fst (Init example_ext example_world example_registry_with_logger),
       Return None example_registry_after_Init)"
    using example_Init by (simp add: prod_eq_iff)
  have s: "call\<^sup>*\<^sup>* example_registry_after_Init example_registry_after_Init"
    by simp
  have p: "persister example_registry_after_Init = Some (PersisterAt 2)"
    by (simp add: example_registry_after_Init_def)
  have a: "Persister example_registry_with_logger = None \<and> SessionPersister example_registry_with_logger = None \<and>
      Ping example_world 0 example_registry_with_logger = Inl nil_dereference"
    using persister_is_nil_until_Init_returns_nil
      [where m = example_registry_with_logger and w = example_world and t = 0] r
    by blast
  from persister_is_nil_until_Init_returns_nil
    [where m = example_registry_with_logger and x = example_ext and w = example_world
       and evs = "fst (Init example_ext example_world example_registry_with_logger)"
       and ?m1.0 = example_registry_after_Init and ?m2.0 = example_registry_after_Init
       and w' = example_world and t = 7] i s
  obtain q where
    "persister example_registry_after_Init = Some q"
    "Persister example_registry_after_Init = Some q"
    "RegistrationFlowPersister example_registry_after_Init = Some q"
    "Ping example_world 7 example_registry_after_Init = Inr (Persister_Ping example_world 7 q)"
    by blast
  then have "Persister example_registry_after_Init = Some (PersisterAt 2) \<and>
      RegistrationFlowPersister example_registry_after_Init = Some (PersisterAt 2) \<and>
      Ping example_world 7 example_registry_after_Init = Inr None"
    using p by (simp add: example_world_fields)
  with a show ?thesis
    by simp
qed

subsection \<open>What is built stays built\<close>












subsection \<open>Memoized getters\<close>



















text \<open>
  The logger has a setter: after \<open>WithLogger\<close> the getter returns the logger that was
  set, so it is not memoized across every later call.
\<close>

lemma Logger_follows_WithLogger:
  "fst (Logger (WithLogger (Some l) m)) = l"
  "\<not> memoized Logger"
proof -
  show "fst (Logger (WithLogger (Some l) m)) = l"
    by (simp add: Logger_def WithLogger_def)
  show "\<not> memoized Logger"
  proof
    assume a: "memoized Logger"
    let ?m1 = "snd (Logger NewRegistryDefault)"
    have "call ?m1 (WithLogger (Some 1) ?m1)"
      by (rule call_WithLogger)
    then have "call\<^sup>*\<^sup>* ?m1 (WithLogger (Some 1) ?m1)"
      by (rule r_into_rtranclp)
    then have "Logger (WithLogger (Some 1) ?m1) =
        (fst (Logger NewRegistryDefault), WithLogger (Some 1) ?m1)"
      using a unfolding memoized_def by blast
    then show False
      by (simp add: Logger_def WithLogger_def NewRegistryDefault_def alloc_def)
  qed
qed






end
